theory Spec2Isabelle
  imports Complex_Main "HOL-Library.Multiset"
begin

section \<open>Values the notebooks compute with\<close>

text \<open>
  The notebooks are Jupyter notebooks over xarray, numpy and pandas. A pixel of a
  reflectance band, a ground measurement and a tide height are numpy floats: a finite
  number, an infinity, or NaN (a masked pixel, a missing measurement). They are modelled
  as the extended reals with NaN; rounding and the sign of zero are left out, so the
  arithmetic below is IEEE-754's on exact numbers.
\<close>

datatype fl = Fin real | PInf | NInf | NaN

datatype py_error = ValueError | OverflowError | KeyError | IndexError

text \<open>\<^verbatim>\<open>np.isnan\<close>.\<close>

fun isnan :: "fl \<Rightarrow> bool" where
  "isnan NaN = True"
| "isnan _ = False"

fun fl_neg :: "fl \<Rightarrow> fl" where
  "fl_neg (Fin a) = Fin (- a)"
| "fl_neg PInf = NInf"
| "fl_neg NInf = PInf"
| "fl_neg NaN = NaN"

fun fl_add :: "fl \<Rightarrow> fl \<Rightarrow> fl" where
  "fl_add NaN _ = NaN"
| "fl_add _ NaN = NaN"
| "fl_add (Fin a) (Fin b) = Fin (a + b)"
| "fl_add PInf NInf = NaN"
| "fl_add NInf PInf = NaN"
| "fl_add PInf _ = PInf"
| "fl_add NInf _ = NInf"
| "fl_add (Fin a) PInf = PInf"
| "fl_add (Fin a) NInf = NInf"

definition fl_sub :: "fl \<Rightarrow> fl \<Rightarrow> fl" where
  "fl_sub a b = fl_add a (fl_neg b)"

text \<open>
  Division of numpy floats does not raise: \<open>0 / 0\<close> is NaN and \<open>a / 0\<close> is an
  infinity with the sign of \<open>a\<close>.
\<close>

fun fl_div :: "fl \<Rightarrow> fl \<Rightarrow> fl" where
  "fl_div NaN _ = NaN"
| "fl_div _ NaN = NaN"
| "fl_div (Fin a) (Fin b) =
     (if b = 0 then (if a = 0 then NaN else if 0 < a then PInf else NInf)
      else Fin (a / b))"
| "fl_div (Fin a) _ = Fin 0"
| "fl_div PInf (Fin b) = (if 0 \<le> b then PInf else NInf)"
| "fl_div NInf (Fin b) = (if 0 \<le> b then NInf else PInf)"
| "fl_div _ _ = NaN"

fun fl_mul :: "fl \<Rightarrow> fl \<Rightarrow> fl" where
  "fl_mul NaN _ = NaN"
| "fl_mul _ NaN = NaN"
| "fl_mul (Fin a) (Fin b) = Fin (a * b)"
| "fl_mul (Fin a) PInf = (if a = 0 then NaN else if 0 < a then PInf else NInf)"
| "fl_mul (Fin a) NInf = (if a = 0 then NaN else if 0 < a then NInf else PInf)"
| "fl_mul PInf (Fin b) = (if b = 0 then NaN else if 0 < b then PInf else NInf)"
| "fl_mul NInf (Fin b) = (if b = 0 then NaN else if 0 < b then NInf else PInf)"
| "fl_mul PInf PInf = PInf"
| "fl_mul NInf NInf = PInf"
| "fl_mul _ _ = NInf"

text \<open>
  A band of a dataset is an array of pixels, here in one fixed order. Arithmetic between
  two bands of the same dataset is pixel by pixel.
\<close>

type_synonym band = "fl list"

definition band_sub :: "band \<Rightarrow> band \<Rightarrow> band" where
  "band_sub A B = map2 fl_sub A B"

definition band_add :: "band \<Rightarrow> band \<Rightarrow> band" where
  "band_add A B = map2 fl_add A B"

definition band_div :: "band \<Rightarrow> band \<Rightarrow> band" where
  "band_div A B = map2 fl_div A B"

section \<open>Spectral indices\<close>

text \<open>
  Coastal erosion notebook:
  \<^verbatim>\<open>landsat_ds['water_index'] = ((landsat_ds.green - landsat_ds.swir1) / (landsat_ds.green + landsat_ds.swir1))\<close>
\<close>

definition water_index_mndwi :: "band \<Rightarrow> band \<Rightarrow> band" where
  "water_index_mndwi green swir1 = band_div (band_sub green swir1) (band_add green swir1)"

text \<open>
  Intertidal elevation notebook:
  \<^verbatim>\<open>landsat_ds['water_index'] = ((landsat_ds.green - landsat_ds.nir) / (landsat_ds.green + landsat_ds.nir))\<close>
\<close>

definition water_index_ndwi :: "band \<Rightarrow> band \<Rightarrow> band" where
  "water_index_ndwi green nir = band_div (band_sub green nir) (band_add green nir)"

text \<open>
  Site matching notebook, on the one pixel nearest the site:
  \<^verbatim>\<open>ds_closest["ndci"] = (ds_closest.nbart_red_edge_1 - ds_closest.nbart_red) / (ds_closest.nbart_red_edge_1 + ds_closest.nbart_red)\<close>
\<close>

definition ndci :: "fl \<Rightarrow> fl \<Rightarrow> fl" where
  "ndci red_edge red = fl_div (fl_sub red_edge red) (fl_add red_edge red)"

text \<open>
  Modelled from the spec: \<^verbatim>\<open>calculate_indices(ds_s2, 'NDVI', collection='ga_sentinel2_1')\<close>
  of the forestry notebook calls \<^verbatim>\<open>utils.dea_bandindices\<close>, which is not among the
  sources. The spec calls NDVI a normalised band ratio computed per pixel, and the
  notebook gives the formula \<open>(NIR - Red) / (NIR + Red)\<close> beside the call.
\<close>

definition calculate_indices_NDVI :: "band \<Rightarrow> band \<Rightarrow> band" where
  "calculate_indices_NDVI nbart_nir_1 nbart_red =
     band_div (band_sub nbart_nir_1 nbart_red) (band_add nbart_nir_1 nbart_red)"

section \<open>The average colour\<close>

text \<open>
  \<^verbatim>\<open>np.clip(x, lo, hi)\<close> is \<open>minimum(maximum(x, lo), hi)\<close>, and NaN stays NaN.
\<close>

fun np_clip :: "fl \<Rightarrow> real \<Rightarrow> real \<Rightarrow> fl" where
  "np_clip (Fin x) lo hi = Fin (min (max x lo) hi)"
| "np_clip PInf lo hi = Fin hi"
| "np_clip NInf lo hi = Fin (min lo hi)"
| "np_clip NaN lo hi = NaN"

text \<open>
  \<^verbatim>\<open>int(x)\<close> truncates towards zero; it raises ValueError on NaN and OverflowError on
  an infinity.
\<close>

fun py_int :: "fl \<Rightarrow> py_error + int" where
  "py_int (Fin x) = Inr (if 0 \<le> x then \<lfloor>x\<rfloor> else \<lceil>x\<rceil>)"
| "py_int NaN = Inl ValueError"
| "py_int _ = Inl OverflowError"

definition hex_digit :: "nat \<Rightarrow> char" where
  "hex_digit d = ''0123456789abcdef'' ! d"

fun to_hex :: "nat \<Rightarrow> string" where
  "to_hex n = (if n < 16 then [hex_digit n] else to_hex (n div 16) @ [hex_digit (n mod 16)])"

declare to_hex.simps [simp del]

definition zfill :: "nat \<Rightarrow> string \<Rightarrow> string" where
  "zfill w s = replicate (w - length s) (CHR ''0'') @ s"

text \<open>
  The format specification \<^verbatim>\<open>{:02x}\<close>: lower-case hexadecimal, padded with zeros to
  two characters, the sign of a negative number counted in the width.
\<close>

definition format_02x :: "int \<Rightarrow> string" where
  "format_02x n =
     (if n < 0 then CHR ''-'' # zfill 1 (to_hex (nat (- n))) else zfill 2 (to_hex (nat n)))"

text \<open>
  \<^verbatim>\<open>
  def get_rgb(scaled_ds):
      rgb_values = [int(np.clip(scaled_ds[band], 0, 1) * 255) for band in ['red', 'green', 'blue']]
      red, green, blue = rgb_values
      hex_value = '#{:02x}{:02x}{:02x}'.format(red, green, blue)
      return(rgb_values, hex_value)
  \<close>
  \<open>scaled_ds\<close> is the dataset of band averages: a value for each band name it holds.
\<close>

definition rgb_value :: "(string \<rightharpoonup> fl) \<Rightarrow> string \<Rightarrow> py_error + int" where
  "rgb_value scaled_ds band =
     (case scaled_ds band of
        None \<Rightarrow> Inl KeyError
      | Some v \<Rightarrow> py_int (fl_mul (np_clip v 0 1) (Fin 255)))"

definition get_rgb :: "(string \<rightharpoonup> fl) \<Rightarrow> py_error + (int list \<times> string)" where
  "get_rgb scaled_ds =
     (case rgb_value scaled_ds ''red'' of
        Inl e \<Rightarrow> Inl e
      | Inr red \<Rightarrow>
          (case rgb_value scaled_ds ''green'' of
             Inl e \<Rightarrow> Inl e
           | Inr green \<Rightarrow>
               (case rgb_value scaled_ds ''blue'' of
                  Inl e \<Rightarrow> Inl e
                | Inr blue \<Rightarrow>
                    Inr ([red, green, blue],
                         CHR ''#'' # format_02x red @ format_02x green @ format_02x blue))))"

section \<open>Forestry: the two samples\<close>

text \<open>
  The loaded dataset is a time series: for each time step its time coordinate (a
  \<^verbatim>\<open>datetime64\<close> instant, counted in nanoseconds) and the NDVI image observed then.
  \<^verbatim>\<open>time_baseline\<close> is a date, \<^verbatim>\<open>np.datetime64(time_baseline)\<close> its instant.
\<close>

type_synonym 'img time_series = "(int \<times> 'img) list"

text \<open>\<^verbatim>\<open>da.sel(time=mask)\<close> with a boolean mask keeps the time steps where the mask holds.\<close>

definition sel_time :: "bool list \<Rightarrow> 'a list \<Rightarrow> 'a list" where
  "sel_time keep xs = map snd (filter fst (zip keep xs))"

text \<open>\<^verbatim>\<open>ds_s2['time']<=np.datetime64(time_baseline)\<close>\<close>

definition baseline_mask :: "'img time_series \<Rightarrow> int \<Rightarrow> bool list" where
  "baseline_mask ds_s2 time_baseline = map (\<lambda>t. t \<le> time_baseline) (map fst ds_s2)"

text \<open>\<^verbatim>\<open>ds_s2['time']>np.datetime64(time_baseline)\<close>\<close>

definition postbaseline_mask :: "'img time_series \<Rightarrow> int \<Rightarrow> bool list" where
  "postbaseline_mask ds_s2 time_baseline = map (\<lambda>t. t > time_baseline) (map fst ds_s2)"

text \<open>
  \<^verbatim>\<open>baseline_sample = ds_s2.NDVI.sel(time=ds_s2['time']<=np.datetime64(time_baseline))\<close>
\<close>

definition baseline_sample :: "'img time_series \<Rightarrow> int \<Rightarrow> 'img time_series" where
  "baseline_sample ds_s2 time_baseline = sel_time (baseline_mask ds_s2 time_baseline) ds_s2"

text \<open>
  \<^verbatim>\<open>postbaseline_sample = ds_s2.NDVI.sel(time=ds_s2['time']>np.datetime64(time_baseline))\<close>
\<close>

definition postbaseline_sample :: "'img time_series \<Rightarrow> int \<Rightarrow> 'img time_series" where
  "postbaseline_sample ds_s2 time_baseline =
     sel_time (postbaseline_mask ds_s2 time_baseline) ds_s2"


section \<open>Site matching\<close>

text \<open>
  A time step of the Sentinel-2 dataset \<^verbatim>\<open>ds_s2\<close> that \<^verbatim>\<open>load_ard\<close> returns for a site:
  its time coordinate (nanoseconds) and the two bands at the pixel nearest the site
  (\<^verbatim>\<open>ds_closest.sel(x=site_x, y=site_y, method="nearest")\<close>).
\<close>

record timestep =
  time :: int
  nbart_red_edge_1 :: fl
  nbart_red :: fl

text \<open>A row of \<^verbatim>\<open>locations.itertuples()\<close>.\<close>

record site =
  Index :: nat
  SiteName :: string
  Lat :: real
  Long :: real

text \<open>
  The observations table: the \<^verbatim>\<open>Date\<close> column, then one column of ground
  measurements per site.
\<close>

record observations_csv =
  Date :: "string list"
  site_columns :: "fl list list"

text \<open>The seven lists the loop appends to.\<close>

record matches =
  red_values :: "fl list"
  rededge_values :: "fl list"
  ndci_values :: "fl list"
  time_deltas :: "int list"
  site_names :: "string list"
  match_values :: "fl list"
  match_dates :: "int list"

text \<open>\<^verbatim>\<open>time_delta.days\<close> of a pandas Timedelta: its whole days.\<close>

definition ns_per_day :: int where
  "ns_per_day = 86400 * 1000000000"

definition timedelta_days :: "int \<Rightarrow> int" where
  "timedelta_days time_delta = time_delta div ns_per_day"

text \<open>\<^verbatim>\<open>round(x, 4)\<close>: to four decimals, a tie to the even neighbour; NaN and the infinities stay.\<close>

definition round_half_even :: "real \<Rightarrow> int" where
  "round_half_even x =
     (let f = \<lfloor>x\<rfloor>; d = x - of_int f
      in if d < 1 / 2 then f else if 1 / 2 < d then f + 1 else if even f then f else f + 1)"

fun py_round4 :: "fl \<Rightarrow> fl" where
  "py_round4 (Fin x) = Fin (of_int (round_half_even (x * 10000)) / 10000)"
| "py_round4 v = v"

text \<open>
  \<^verbatim>\<open>ds_s2.sel(time=target_date, method="nearest")\<close>. \<^verbatim>\<open>load_ard\<close> returns the time steps
  sorted by time, each time once. On such an index pandas picks the nearest time and
  breaks a tie towards the later one; it raises KeyError on an empty index. An index out
  of order or with a time twice is not what \<^verbatim>\<open>load_ard\<close> returns, and the model
  raises on it.
\<close>

definition closer :: "int \<Rightarrow> timestep \<Rightarrow> timestep \<Rightarrow> timestep" where
  "closer target a b = (if \<bar>time b - target\<bar> \<le> \<bar>time a - target\<bar> then b else a)"

definition sel_nearest :: "timestep list \<Rightarrow> int \<Rightarrow> py_error + timestep" where
  "sel_nearest ds target =
     (case ds of
        [] \<Rightarrow> Inl KeyError
      | x # xs \<Rightarrow>
          if sorted_wrt (<) (map time ds) then Inr (foldl (closer target) x xs)
          else Inl ValueError)"

text \<open>
  \<^verbatim>\<open>observations.iloc[:, site_count].to_list()\<close> with \<^verbatim>\<open>site_count = site.Index + 1\<close>.
  Column 0 of the table is \<^verbatim>\<open>Date\<close> and the ground measurements start at column 1;
  the loop never asks for column 0, which the model leaves out. A column past the last
  one is an IndexError.
\<close>

definition iloc_column :: "observations_csv \<Rightarrow> nat \<Rightarrow> py_error + fl list" where
  "iloc_column observations site_count =
     (if 0 < site_count \<and> site_count - 1 < length (site_columns observations)
      then Inr (site_columns observations ! (site_count - 1))
      else Inl IndexError)"

text \<open>
  \<^verbatim>\<open>
  site_names.append(site_name)
  match_dates.append(target_date)
  match_values.append(site_values[count])
  ndci_values.append(round(ds_closest.ndci.values.item(), 4))
  red_values.append(ds_closest.nbart_red.values.item())
  rededge_values.append(ds_closest.nbart_red_edge_1.values.item())
  time_deltas.append(int(time_delta.days))
  \<close>
\<close>

definition append_match ::
  "matches \<Rightarrow> string \<Rightarrow> int \<Rightarrow> fl \<Rightarrow> fl \<Rightarrow> fl \<Rightarrow> fl \<Rightarrow> int \<Rightarrow> matches" where
  "append_match acc site_name target_date site_value ndci_value red rededge days =
     acc\<lparr>site_names := site_names acc @ [site_name],
         match_dates := match_dates acc @ [target_date],
         match_values := match_values acc @ [site_value],
         ndci_values := ndci_values acc @ [py_round4 ndci_value],
         red_values := red_values acc @ [red],
         rededge_values := rededge_values acc @ [rededge],
         time_deltas := time_deltas acc @ [days]\<rparr>"

text \<open>
  One pass of the inner loop, for the pair \<^verbatim>\<open>(count, date_string)\<close>:
  \<^verbatim>\<open>
  target_date = datetime.strptime(date_string, "%d/%m/%Y")
  ds_closest = ds_s2.sel(time=target_date, method="nearest")
  time_delta = np.abs(pd.to_datetime(target_date) - ds_closest.time.values)
  if time_delta.days <= obs_window:
      ds_closest = ds_closest.sel(x=site_x, y=site_y, method="nearest")
      ds_closest["ndci"] = ...
      if (np.isnan(ds_closest.ndci.values.item()) == False) and (np.isnan(site_values[count]) == False):
          ...
  \<close>
  \<^verbatim>\<open>strptime\<close> parses a date string to its instant, or raises ValueError (\<open>None\<close>).
\<close>

definition match_date ::
  "(string \<Rightarrow> int option) \<Rightarrow> int \<Rightarrow> string \<Rightarrow> timestep list \<Rightarrow> fl list
     \<Rightarrow> matches \<Rightarrow> nat \<times> string \<Rightarrow> py_error + matches" where
  "match_date strptime obs_window site_name ds_s2 site_values acc cd =
     (case cd of (cnt, date_string) \<Rightarrow>
      (case strptime date_string of
         None \<Rightarrow> Inl ValueError
       | Some target_date \<Rightarrow>
           (case sel_nearest ds_s2 target_date of
              Inl e \<Rightarrow> Inl e
            | Inr ds_closest \<Rightarrow>
                (let time_delta = \<bar>target_date - time ds_closest\<bar>
                 in if timedelta_days time_delta \<le> obs_window
                    then (let v = ndci (nbart_red_edge_1 ds_closest) (nbart_red ds_closest)
                          in if \<not> isnan v
                             then (if cnt < length site_values
                                   then (if \<not> isnan (site_values ! cnt)
                                         then Inr (append_match acc site_name target_date
                                                    (site_values ! cnt) v
                                                    (nbart_red ds_closest)
                                                    (nbart_red_edge_1 ds_closest)
                                                    (timedelta_days time_delta))
                                         else Inr acc)
                                   else Inl IndexError)
                             else Inr acc)
                    else Inr acc))))"

text \<open>\<^verbatim>\<open>for count, date_string in enumerate(site_dates):\<close>\<close>

fun dates_loop ::
  "(string \<Rightarrow> int option) \<Rightarrow> int \<Rightarrow> string \<Rightarrow> timestep list \<Rightarrow> fl list
     \<Rightarrow> matches \<Rightarrow> (nat \<times> string) list \<Rightarrow> py_error + matches" where
  "dates_loop strptime obs_window site_name ds_s2 site_values acc [] = Inr acc"
| "dates_loop strptime obs_window site_name ds_s2 site_values acc (cd # rest) =
     (case match_date strptime obs_window site_name ds_s2 site_values acc cd of
        Inl e \<Rightarrow> Inl e
      | Inr acc' \<Rightarrow> dates_loop strptime obs_window site_name ds_s2 site_values acc' rest)"

text \<open>
  One pass of the outer loop: the site's ground measurements, its dataset from
  \<^verbatim>\<open>load_ard\<close>, then the loop over the dates.
\<close>

definition match_site ::
  "(string \<Rightarrow> int option) \<Rightarrow> (site \<Rightarrow> timestep list) \<Rightarrow> int \<Rightarrow> observations_csv
     \<Rightarrow> matches \<Rightarrow> site \<Rightarrow> py_error + matches" where
  "match_site strptime load_ard obs_window observations acc s =
     (case iloc_column observations (Index s + 1) of
        Inl e \<Rightarrow> Inl e
      | Inr site_values \<Rightarrow>
          dates_loop strptime obs_window (SiteName s) (load_ard s) site_values acc
            (enumerate 0 (Date observations)))"

text \<open>\<^verbatim>\<open>for site in locations.itertuples():\<close>\<close>

fun sites_loop ::
  "(string \<Rightarrow> int option) \<Rightarrow> (site \<Rightarrow> timestep list) \<Rightarrow> int \<Rightarrow> observations_csv
     \<Rightarrow> matches \<Rightarrow> site list \<Rightarrow> py_error + matches" where
  "sites_loop strptime load_ard obs_window observations acc [] = Inr acc"
| "sites_loop strptime load_ard obs_window observations acc (s # rest) =
     (case match_site strptime load_ard obs_window observations acc s of
        Inl e \<Rightarrow> Inl e
      | Inr acc' \<Rightarrow> sites_loop strptime load_ard obs_window observations acc' rest)"

definition no_matches :: matches where
  "no_matches = \<lparr>red_values = [], rededge_values = [], ndci_values = [], time_deltas = [],
                 site_names = [], match_values = [], match_dates = []\<rparr>"

definition match_all ::
  "(string \<Rightarrow> int option) \<Rightarrow> (site \<Rightarrow> timestep list) \<Rightarrow> int \<Rightarrow> site list
     \<Rightarrow> observations_csv \<Rightarrow> py_error + matches" where
  "match_all strptime load_ard obs_window locations observations =
     sites_loop strptime load_ard obs_window observations no_matches locations"

text \<open>
  \<^verbatim>\<open>location_results = pd.DataFrame({"SiteName": site_names, ...})\<close>, the table written to
  \<^verbatim>\<open>MatchedData.csv\<close>: one row per position of the seven lists; pandas raises ValueError
  when their lengths differ.
\<close>

record result_row =
  col_SiteName :: string
  col_ObservationDate :: int
  col_TimeDelta :: int
  col_ObservationValue :: fl
  col_Red :: fl
  col_RedEdge :: fl
  col_NDCI :: fl

definition equal_lengths :: "matches \<Rightarrow> bool" where
  "equal_lengths acc =
     (length (match_dates acc) = length (site_names acc)
      \<and> length (time_deltas acc) = length (site_names acc)
      \<and> length (match_values acc) = length (site_names acc)
      \<and> length (red_values acc) = length (site_names acc)
      \<and> length (rededge_values acc) = length (site_names acc)
      \<and> length (ndci_values acc) = length (site_names acc))"

definition rows_of :: "matches \<Rightarrow> result_row list" where
  "rows_of acc =
     map (\<lambda>(n, d, t, v, r, e, c).
            \<lparr>col_SiteName = n, col_ObservationDate = d, col_TimeDelta = t,
             col_ObservationValue = v, col_Red = r, col_RedEdge = e, col_NDCI = c\<rparr>)
       (zip (site_names acc) (zip (match_dates acc) (zip (time_deltas acc)
         (zip (match_values acc) (zip (red_values acc) (zip (rededge_values acc)
           (ndci_values acc)))))))"

definition location_results :: "matches \<Rightarrow> py_error + result_row list" where
  "location_results acc = (if equal_lengths acc then Inr (rows_of acc) else Inl ValueError)"


text \<open>
  What a row of the table records: a ground observation of a site of \<^verbatim>\<open>locations\<close>
  and the time step of that site's dataset nearest to its date, with the gap between the
  two in whole days, within the window.
\<close>

definition row_ok :: "(site \<Rightarrow> timestep list) \<Rightarrow> int \<Rightarrow> site list \<Rightarrow> result_row \<Rightarrow> bool" where
  "row_ok load_ard obs_window locations row =
     (0 \<le> col_TimeDelta row \<and> col_TimeDelta row \<le> obs_window
      \<and> \<not> isnan (col_NDCI row) \<and> \<not> isnan (col_ObservationValue row)
      \<and> (\<exists>s \<in> set locations. SiteName s = col_SiteName row
           \<and> (\<exists>t \<in> set (load_ard s).
                 (\<forall>u \<in> set (load_ard s).
                    \<bar>col_ObservationDate row - time t\<bar> \<le> \<bar>col_ObservationDate row - time u\<bar>)
               \<and> col_TimeDelta row = timedelta_days \<bar>col_ObservationDate row - time t\<bar>
               \<and> \<bar>col_ObservationDate row - time t\<bar> < (obs_window + 1) * ns_per_day
               \<and> col_Red row = nbart_red t \<and> col_RedEdge row = nbart_red_edge_1 t
               \<and> col_NDCI row = py_round4 (ndci (nbart_red_edge_1 t) (nbart_red t)))))"

definition rows_ok :: "(site \<Rightarrow> timestep list) \<Rightarrow> int \<Rightarrow> site list \<Rightarrow> matches \<Rightarrow> bool" where
  "rows_ok load_ard obs_window locations acc =
     (equal_lengths acc \<and> list_all (row_ok load_ard obs_window locations) (rows_of acc))"

text \<open>
  Example inputs: ground observations on 10 January and 20 February 2019 at one site;
  a dataset with one image from 2 January 2019, 00:47:11, and a dataset with images from
  8 and 13 January 2019.
\<close>

definition ex_strptime :: "string \<Rightarrow> int option" where
  "ex_strptime s =
     (if s = ''10/01/2019'' then Some (17906 * ns_per_day)
      else if s = ''20/02/2019'' then Some (17947 * ns_per_day)
      else None)"

definition ex_site :: site where
  "ex_site = \<lparr>Index = 0, SiteName = ''A'', Lat = - 35.9, Long = 139.4\<rparr>"

definition ex_observations :: observations_csv where
  "ex_observations = \<lparr>Date = [''10/01/2019'', ''20/02/2019''], site_columns = [[Fin 5, NaN]]\<rparr>"

definition ex_late :: "timestep list" where
  "ex_late = [\<lparr>time = 17898 * ns_per_day + 2831 * 1000000000,
              nbart_red_edge_1 = Fin 600, nbart_red = Fin 400\<rparr>]"

definition ex_near :: "timestep list" where
  "ex_near = [\<lparr>time = 17904 * ns_per_day + 2831 * 1000000000,
              nbart_red_edge_1 = Fin 600, nbart_red = Fin 400\<rparr>,
             \<lparr>time = 17909 * ns_per_day + 2831 * 1000000000,
              nbart_red_edge_1 = Fin 700, nbart_red = Fin 300\<rparr>]"

section \<open>Contour extraction\<close>

text \<open>
  Modelled from the spec: \<^verbatim>\<open>contour_extract\<close> of \<^verbatim>\<open>utils/waterline_funcs.py\<close> is not
  among the sources. The spec: contour extraction traces iso-value boundaries (e.g.
  water-index = 0) in a raster to produce vector lines; the notebooks: it returns a
  shapefile with one line for each array along the dimension, each with its attribute.
  The contouring library is a parameter: \<open>trace z r\<close> is the line of raster \<open>r\<close> at
  level \<open>z\<close>.
\<close>

definition contour_extract ::
  "(real \<Rightarrow> 'raster \<Rightarrow> 'line) \<Rightarrow> real list \<Rightarrow> 'raster list \<Rightarrow> 'attr list
     \<Rightarrow> (real \<times> 'attr \<times> 'line) list" where
  "contour_extract trace z_values ds_array attribute_data =
     concat (map (\<lambda>z. map (\<lambda>(r, a). (z, a, trace z r)) (zip ds_array attribute_data)) z_values)"

text \<open>
  Coastal erosion notebook, with \<^verbatim>\<open>landsat_summaries\<close> the summary water-index image of
  each time step beside the text of its time:
  \<^verbatim>\<open>
  attribute_data = {'time': [str(i)[0:10] for i in landsat_summaries.time.values]}
  contour_gdf = waterline_funcs.contour_extract(z_values=[0], ds_array=landsat_summaries, ...)
  \<close>
\<close>

definition coastal_waterlines ::
  "(real \<Rightarrow> 'raster \<Rightarrow> 'line) \<Rightarrow> (string \<times> 'raster) list \<Rightarrow> (real \<times> string \<times> 'line) list" where
  "coastal_waterlines trace landsat_summaries =
     contour_extract trace [0] (map snd landsat_summaries)
       (map (\<lambda>i. take 10 (fst i)) landsat_summaries)"

text \<open>
  Intertidal elevation notebook, with \<^verbatim>\<open>landsat_intervals\<close> the median tide height and
  the median water-index image of each tidal interval:
  \<^verbatim>\<open>
  attribute_data = {'tide_m': landsat_intervals.tide_height.values}
  contour_gdf = waterline_funcs.contour_extract(z_values=[0], ds_array=landsat_intervals.water_index, ...)
  \<close>
\<close>

definition intertidal_depth_contours ::
  "(real \<Rightarrow> 'raster \<Rightarrow> 'line) \<Rightarrow> (fl \<times> 'raster) list \<Rightarrow> (real \<times> fl \<times> 'line) list" where
  "intertidal_depth_contours trace landsat_intervals =
     contour_extract trace [0] (map snd landsat_intervals) (map fst landsat_intervals)"

section \<open>The notebooks as programs\<close>

text \<open>
  A notebook is the list of its code cells, a cell a list of Python statements. The
  statements are kept as syntax: the names they read and bind, the calls they make and
  the arguments of the calls. A line that starts with \<open>%\<close> is an IPython magic. An
  assignment whose right-hand side is left blank (\<^verbatim>\<open>coordinates = \<close>) is kept as
  \<open>Incomplete\<close>: Python refuses to compile a cell that holds one.
\<close>

datatype expr =
    Name string
  | Num string
  | Str string
  | Const string
  | Attr expr string
  | Call expr "expr list"
  | Kw string expr
  | BinOp string expr expr
  | UnaryOp string expr
  | Subscript expr expr
  | Slice "expr list"
  | Tuple "expr list"
  | ListE "expr list"
  | DictE "expr list" "expr list"
  | ListComp expr "string list" expr
  | FString "expr list"

datatype stmt =
    Magic string
  | Import string string
  | ImportFrom string string string
  | Assign expr expr
  | Incomplete string
  | ExprStmt expr
  | FunDef string "string list" "stmt list"
  | For "string list" expr "stmt list"
  | IfStmt expr "stmt list" "stmt list"
  | Return expr

type_synonym cell = "stmt list"

type_synonym notebook = "cell list"

datatype nb_error = SyntaxError string | NameError string

text \<open>
  The names an expression reads, in the order Python evaluates them; the targets of a
  comprehension are bound inside it.
\<close>

fun reads :: "string list \<Rightarrow> expr \<Rightarrow> string list" where
  "reads bound (Name n) = (if n \<in> set bound then [] else [n])"
| "reads bound (Num _) = []"
| "reads bound (Str _) = []"
| "reads bound (Const _) = []"
| "reads bound (Attr e _) = reads bound e"
| "reads bound (Call f args) = reads bound f @ concat (map (reads bound) args)"
| "reads bound (Kw _ e) = reads bound e"
| "reads bound (BinOp _ l r) = reads bound l @ reads bound r"
| "reads bound (UnaryOp _ e) = reads bound e"
| "reads bound (Subscript e i) = reads bound e @ reads bound i"
| "reads bound (Slice es) = concat (map (reads bound) es)"
| "reads bound (Tuple es) = concat (map (reads bound) es)"
| "reads bound (ListE es) = concat (map (reads bound) es)"
| "reads bound (DictE ks vs) = concat (map (reads bound) ks) @ concat (map (reads bound) vs)"
| "reads bound (ListComp elt ts iter) = reads bound iter @ reads (ts @ bound) elt"
| "reads bound (FString es) = concat (map (reads bound) es)"

text \<open>
  The target of an assignment: a name (or a tuple of names) is bound; a subscript or an
  attribute reads its object.
\<close>

fun binds :: "expr \<Rightarrow> string list" where
  "binds (Name n) = [n]"
| "binds (Tuple es) = concat (map binds es)"
| "binds _ = []"

fun target_reads :: "expr \<Rightarrow> string list" where
  "target_reads (Name n) = []"
| "target_reads (Tuple es) = concat (map target_reads es)"
| "target_reads e = reads [] e"

definition first_undefined :: "string list \<Rightarrow> string list \<Rightarrow> string option" where
  "first_undefined env names = find (\<lambda>n. n \<notin> set env) names"

text \<open>
  Running a statement on the names defined so far: NameError at the first name read
  that is not defined, else the names defined afterwards. Imports are taken to succeed.
  The body of a loop and both branches of a conditional are walked once, in order; the
  body of a function is resolved where its \<^verbatim>\<open>def\<close> stands, its parameters bound.
\<close>

fun exec_stmt :: "string list \<Rightarrow> stmt \<Rightarrow> nb_error + string list"
  and exec_block :: "string list \<Rightarrow> stmt list \<Rightarrow> nb_error + string list" where
  "exec_stmt env (Magic _) = Inr env"
| "exec_stmt env (Import _ bound) = Inr (bound # env)"
| "exec_stmt env (ImportFrom _ _ bound) = Inr (bound # env)"
| "exec_stmt env (Assign target e) =
     (case first_undefined env (reads [] e @ target_reads target) of
        Some n \<Rightarrow> Inl (NameError n)
      | None \<Rightarrow> Inr (binds target @ env))"
| "exec_stmt env (Incomplete n) = Inl (SyntaxError n)"
| "exec_stmt env (ExprStmt e) =
     (case first_undefined env (reads [] e) of
        Some n \<Rightarrow> Inl (NameError n)
      | None \<Rightarrow> Inr env)"
| "exec_stmt env (FunDef f params body) =
     (case exec_block (params @ f # env) body of
        Inl e \<Rightarrow> Inl e
      | Inr _ \<Rightarrow> Inr (f # env))"
| "exec_stmt env (For targets iter body) =
     (case first_undefined env (reads [] iter) of
        Some n \<Rightarrow> Inl (NameError n)
      | None \<Rightarrow> exec_block (targets @ env) body)"
| "exec_stmt env (IfStmt cond body orelse) =
     (case first_undefined env (reads [] cond) of
        Some n \<Rightarrow> Inl (NameError n)
      | None \<Rightarrow>
          (case exec_block env body of
             Inl e \<Rightarrow> Inl e
           | Inr env' \<Rightarrow> exec_block env' orelse))"
| "exec_stmt env (Return e) =
     (case first_undefined env (reads [] e) of
        Some n \<Rightarrow> Inl (NameError n)
      | None \<Rightarrow> Inr env)"
| "exec_block env [] = Inr env"
| "exec_block env (s # ss) =
     (case exec_stmt env s of
        Inl e \<Rightarrow> Inl e
      | Inr env' \<Rightarrow> exec_block env' ss)"

text \<open>The blanks of a statement: the targets of its incomplete assignments.\<close>

fun blanks :: "stmt \<Rightarrow> string list" where
  "blanks (Incomplete n) = [n]"
| "blanks (FunDef _ _ body) = concat (map blanks body)"
| "blanks (For _ _ body) = concat (map blanks body)"
| "blanks (IfStmt _ body orelse) = concat (map blanks body) @ concat (map blanks orelse)"
| "blanks _ = []"

text \<open>
  A cell is compiled as a whole before any of it runs: with a blank in it, it is a
  SyntaxError and binds nothing.
\<close>

definition exec_cell :: "string list \<Rightarrow> cell \<Rightarrow> nb_error + string list" where
  "exec_cell env c =
     (case concat (map blanks c) of
        [] \<Rightarrow> exec_block env c
      | n # _ \<Rightarrow> Inl (SyntaxError n))"

text \<open>
  Running the cells in listed order stops at the first cell that fails, with the number
  of that cell (from 0) and its error.
\<close>

fun run_cells :: "nat \<Rightarrow> string list \<Rightarrow> cell list \<Rightarrow> (nat \<times> nb_error) + string list" where
  "run_cells k env [] = Inr env"
| "run_cells k env (c # cs) =
     (case exec_cell env c of
        Inl e \<Rightarrow> Inl (k, e)
      | Inr env' \<Rightarrow> run_cells (Suc k) env' cs)"

text \<open>The built-in names the notebooks use are defined from the start.\<close>

definition builtins :: "string list" where
  "builtins = [''print'', ''len'', ''str'', ''int'', ''float'', ''range'', ''enumerate'',
               ''round'', ''abs'', ''min'', ''max'', ''sum'', ''list'', ''dict'', ''tuple'',
               ''zip'', ''sorted'', ''open'', ''type'', ''isinstance'']"

definition run_notebook :: "notebook \<Rightarrow> (nat \<times> nb_error) + string list" where
  "run_notebook nb = run_cells 0 builtins nb"

section \<open>Calls and imports of a notebook\<close>

text \<open>Every call in an expression, outermost first.\<close>

fun calls :: "expr \<Rightarrow> expr list" where
  "calls (Call f args) = Call f args # calls f @ concat (map calls args)"
| "calls (Attr e _) = calls e"
| "calls (Kw _ e) = calls e"
| "calls (BinOp _ l r) = calls l @ calls r"
| "calls (UnaryOp _ e) = calls e"
| "calls (Subscript e i) = calls e @ calls i"
| "calls (Slice es) = concat (map calls es)"
| "calls (Tuple es) = concat (map calls es)"
| "calls (ListE es) = concat (map calls es)"
| "calls (DictE ks vs) = concat (map calls ks) @ concat (map calls vs)"
| "calls (ListComp elt _ iter) = calls iter @ calls elt"
| "calls (FString es) = concat (map calls es)"
| "calls _ = []"

fun stmt_calls :: "stmt \<Rightarrow> expr list" where
  "stmt_calls (Assign target e) = calls e @ calls target"
| "stmt_calls (ExprStmt e) = calls e"
| "stmt_calls (Return e) = calls e"
| "stmt_calls (FunDef _ _ body) = concat (map stmt_calls body)"
| "stmt_calls (For _ iter body) = calls iter @ concat (map stmt_calls body)"
| "stmt_calls (IfStmt cond body orelse) =
     calls cond @ concat (map stmt_calls body) @ concat (map stmt_calls orelse)"
| "stmt_calls _ = []"

definition notebook_calls :: "notebook \<Rightarrow> expr list" where
  "notebook_calls nb = concat (map stmt_calls (concat nb))"

text \<open>
  What an import binds: \<^verbatim>\<open>import a.b\<close> binds \<open>a\<close> to the package \<open>a\<close>,
  \<^verbatim>\<open>import a.b as c\<close> binds \<open>c\<close> to the module \<open>a.b\<close>, and
  \<^verbatim>\<open>from a.b import f as g\<close> binds \<open>g\<close> to \<open>a.b.f\<close>.
\<close>

fun stmt_imports :: "stmt \<Rightarrow> (string \<times> string) list" where
  "stmt_imports (Import m bound) =
     [(bound, if bound = takeWhile (\<lambda>c. c \<noteq> CHR ''.'') m then bound else m)]"
| "stmt_imports (ImportFrom m n bound) = [(bound, m @ ''.'' @ n)]"
| "stmt_imports (FunDef _ _ body) = concat (map stmt_imports body)"
| "stmt_imports (For _ _ body) = concat (map stmt_imports body)"
| "stmt_imports (IfStmt _ body orelse) =
     concat (map stmt_imports body) @ concat (map stmt_imports orelse)"
| "stmt_imports _ = []"

definition notebook_imports :: "notebook \<Rightarrow> (string \<times> string) list" where
  "notebook_imports nb = concat (map stmt_imports (concat nb))"

text \<open>A dotted path \<open>a.b.c\<close>, as the list of its parts.\<close>

fun dotted :: "expr \<Rightarrow> string list option" where
  "dotted (Name n) = Some [n]"
| "dotted (Attr e a) = (case dotted e of None \<Rightarrow> None | Some p \<Rightarrow> Some (p @ [a]))"
| "dotted _ = None"

fun join_dots :: "string list \<Rightarrow> string" where
  "join_dots [] = []"
| "join_dots [p] = p"
| "join_dots (p # ps) = p @ ''.'' @ join_dots ps"

text \<open>
  The qualified name of what a call calls, when its path starts at an imported name:
  \<^verbatim>\<open>stats.ttest_ind\<close> after \<^verbatim>\<open>from scipy import stats\<close> is
  \<open>scipy.stats.ttest_ind\<close>. A method of an object the notebook made
  (\<^verbatim>\<open>tide_data_xr.interp\<close>) has none.
\<close>

definition qualified_name :: "(string \<times> string) list \<Rightarrow> expr \<Rightarrow> string option" where
  "qualified_name imps e =
     (case e of
        Call f _ \<Rightarrow>
          (case dotted f of
             Some (base # rest) \<Rightarrow>
               (case map_of imps base of
                  Some q \<Rightarrow> Some (join_dots (q # rest))
                | None \<Rightarrow> None)
           | _ \<Rightarrow> None)
      | _ \<Rightarrow> None)"

definition qualified_calls :: "notebook \<Rightarrow> string list" where
  "qualified_calls nb = List.map_filter (qualified_name (notebook_imports nb)) (notebook_calls nb)"

text \<open>The keyword argument \<open>k\<close> of a call.\<close>

fun kw_arg :: "string \<Rightarrow> expr list \<Rightarrow> expr option" where
  "kw_arg k [] = None"
| "kw_arg k (Kw k' e # args) = (if k = k' then Some e else kw_arg k args)"
| "kw_arg k (_ # args) = kw_arg k args"

definition call_kw :: "string \<Rightarrow> expr \<Rightarrow> expr option" where
  "call_kw k e = (case e of Call _ args \<Rightarrow> kw_arg k args | _ \<Rightarrow> None)"

definition calls_to :: "string \<Rightarrow> notebook \<Rightarrow> expr list" where
  "calls_to q nb =
     filter (\<lambda>c. qualified_name (notebook_imports nb) c = Some q) (notebook_calls nb)"

definition starts_with :: "string \<Rightarrow> string \<Rightarrow> bool" where
  "starts_with p s = (take (length p) s = p)"

text \<open>
  The helper modules of the repository itself, none of them among the sources: the
  \<^verbatim>\<open>utils\<close> package beside the sandbox notebooks, and the modules of
  \<^verbatim>\<open>10_Scripts\<close>, which two notebooks put on \<^verbatim>\<open>sys.path\<close> before importing them.
\<close>

definition repository_modules :: "string list" where
  "repository_modules = [''utils.'', ''tiledSegParallel.'', ''SpatialTools.'', ''RainfallTools.'']"

definition repository_call :: "string \<Rightarrow> bool" where
  "repository_call q = list_ex (\<lambda>m. starts_with m q) repository_modules"

definition repository_calls :: "notebook \<Rightarrow> string list" where
  "repository_calls nb = remdups (filter repository_call (qualified_calls nb))"














text \<open>The statements that assign to \<open>target\<close>, by their right-hand sides.\<close>

fun assigned :: "expr \<Rightarrow> stmt \<Rightarrow> expr list" where
  "assigned target (Assign t e) = (if t = target then [e] else [])"
| "assigned target (FunDef _ _ body) = concat (map (assigned target) body)"
| "assigned target (For _ _ body) = concat (map (assigned target) body)"
| "assigned target (IfStmt _ body orelse) =
     concat (map (assigned target) body) @ concat (map (assigned target) orelse)"
| "assigned target _ = []"

definition notebook_assigned :: "expr \<Rightarrow> notebook \<Rightarrow> expr list" where
  "notebook_assigned target nb = concat (map (assigned target) (concat nb))"

text \<open>An expression of the form \<open>(A - B) / (A + B)\<close>, written out with operators.\<close>

fun normalised_difference :: "expr \<Rightarrow> bool" where
  "normalised_difference (BinOp d (BinOp m a b) (BinOp p a' b')) =
     (d = ''/'' \<and> m = ''-'' \<and> p = ''+'' \<and> a = a' \<and> b = b')"
| "normalised_difference _ = False"

section \<open>The notebooks\<close>

text \<open>
  The code cells of each notebook, in listed order; markdown and raw cells hold no code.
  Cell \<open>k\<close> of a notebook is its \<open>k\<close>-th code cell, counted from 0.
\<close>

text \<open>Matching satellite images to field samples (Site_matching.ipynb).\<close>

definition site_matching_cell_0 :: cell where
  "site_matching_cell_0 =
     [Magic ''%matplotlib inline'',
      Import ''datacube'' ''datacube'',
      ImportFrom ''datacube.utils.geometry'' ''CRS'' ''CRS'',
      ImportFrom ''datacube.utils.geometry'' ''point'' ''point'',
      Import ''dask'' ''dask'',
      ImportFrom ''datetime'' ''datetime'' ''datetime'',
      ImportFrom ''datetime'' ''timedelta'' ''timedelta'',
      Import ''matplotlib.pyplot'' ''plt'',
      Import ''numpy'' ''np'',
      Import ''pandas'' ''pd'',
      Import ''sys'' ''sys'',
      Import ''xarray'' ''xr'',
      ImportFrom ''sklearn.linear_model'' ''LinearRegression'' ''LinearRegression'',
      ImportFrom ''scipy.stats'' ''spearmanr'' ''spearmanr'',
      ImportFrom ''utils.dea_datahandling'' ''load_ard'' ''load_ard'']"

definition site_matching_cell_1 :: cell where
  "site_matching_cell_1 =
     [Assign (Name ''dc'') (Call (Attr (Name ''datacube'') ''Datacube'') [Kw ''app'' (Str ''Site_matching'')])]"

definition site_matching_cell_2 :: cell where
  "site_matching_cell_2 =
     [Assign (Name ''sample_loc_file'') (Str ''utils/chlorophyll_sampling_coorong_locations.csv''),
      Assign (Name ''sample_date_file'') (Str ''utils/chlorophyll_sampling_coorong_dates.csv''),
      Assign (Name ''obs_window'') (Num ''7'')]"

definition site_matching_cell_3 :: cell where
  "site_matching_cell_3 =
     [Assign (Name ''locations'') (Call (Attr (Name ''pd'') ''read_csv'') [Name ''sample_loc_file'']),
      ExprStmt (Call (Attr (Name ''locations'') ''head'') [])]"

definition site_matching_cell_4 :: cell where
  "site_matching_cell_4 =
     [Assign (Name ''observations'') (Call (Attr (Name ''pd'') ''read_csv'') [Name ''sample_date_file'']),
      ExprStmt (Call (Attr (Name ''observations'') ''head'') [])]"

definition site_matching_cell_5 :: cell where
  "site_matching_cell_5 =
     [Assign (Name ''site_dates'') (Attr (Subscript (Name ''observations'') (Str ''Date'')) ''values''),
      Assign (Name ''products'') (ListE [Str ''s2a_ard_granule'', Str ''s2b_ard_granule'']),
      Assign (Name ''measurements'') (ListE [Str ''nbart_red_edge_1'', Str ''nbart_red'']),
      Assign (Name ''red_values'') (ListE []),
      Assign (Name ''rededge_values'') (ListE []),
      Assign (Name ''ndci_values'') (ListE []),
      Assign (Name ''time_deltas'') (ListE []),
      Assign (Name ''site_names'') (ListE []),
      Assign (Name ''match_values'') (ListE []),
      Assign (Name ''match_dates'') (ListE []),
      For [''site''] (Call (Attr (Name ''locations'') ''itertuples'') [])
        [Assign (Name ''site_latitude'') (Attr (Name ''site'') ''Lat''),
         Assign (Name ''site_longitude'') (Attr (Name ''site'') ''Long''),
         Assign (Name ''site_name'') (Attr (Name ''site'') ''SiteName''),
         Assign (Name ''site_count'') (BinOp ''+'' (Attr (Name ''site'') ''Index'') (Num ''1'')),
         ExprStmt (Call (Name ''print'') [FString [Str ''Processing site: '', Name ''site_name'']]),
         Assign (Name ''site_values'') (Call (Attr (Subscript (Attr (Name ''observations'') ''iloc'') (Tuple [Slice [],
            Name ''site_count''])) ''to_list'') []),
         Assign (Name ''site_point_ll'') (Call (Name ''point'') [Name ''site_longitude'',
            Name ''site_latitude'', Kw ''crs'' (Call (Name ''CRS'') [Str ''EPSG:4326''])]),
         Assign (Name ''site_xy'') (Subscript (Attr (Call (Attr (Name ''site_point_ll'') ''to_crs'') [Call (Name ''CRS'') [Str ''EPSG:3577'']]) ''points'') (Num ''0'')),
         Assign (Name ''site_x'') (Subscript (Name ''site_xy'') (Num ''0'')),
         Assign (Name ''site_y'') (Subscript (Name ''site_xy'') (Num ''1'')),
         Assign (Name ''buffer'') (Num ''0.001''),
         Assign (Name ''search_lon'') (Tuple [BinOp ''-'' (Name ''site_longitude'') (Name ''buffer''),
            BinOp ''+'' (Name ''site_longitude'') (Name ''buffer'')]),
         Assign (Name ''search_lat'') (Tuple [BinOp ''-'' (Name ''site_latitude'') (Name ''buffer''),
            BinOp ''+'' (Name ''site_latitude'') (Name ''buffer'')]),
         Assign (Name ''ds_s2'') (Call (Name ''load_ard'') [Name ''dc'',
            Kw ''products'' (Name ''products''), Kw ''measurements'' (Name ''measurements''),
            Kw ''x'' (Name ''search_lon''), Kw ''y'' (Name ''search_lat''),
            Kw ''output_crs'' (Str ''EPSG:3577''), Kw ''resolution'' (Tuple [Num ''-10'',
            Num ''10'']), Kw ''lazy_load'' (Const ''True'')]),
         ExprStmt (Call (Name ''print'') [Str [CHR 0x0A]]),
         For [''count'', ''date_string''] (Call (Name ''enumerate'') [Name ''site_dates''])
           [Assign (Name ''target_date'') (Call (Attr (Name ''datetime'') ''strptime'') [Name ''date_string'',
               Str ''%d/%m/%Y'']),
            Assign (Name ''ds_closest'') (Call (Attr (Name ''ds_s2'') ''sel'') [Kw ''time'' (Name ''target_date''),
               Kw ''method'' (Str ''nearest'')]),
            Assign (Name ''time_delta'') (Call (Attr (Name ''np'') ''abs'') [BinOp ''-'' (Call (Attr (Name ''pd'') ''to_datetime'') [Name ''target_date'']) (Attr (Attr (Name ''ds_closest'') ''time'') ''values'')]),
            IfStmt (BinOp ''<='' (Attr (Name ''time_delta'') ''days'') (Name ''obs_window''))
              [Assign (Name ''ds_closest'') (Call (Attr (Name ''ds_closest'') ''sel'') [Kw ''x'' (Name ''site_x''),
                  Kw ''y'' (Name ''site_y''), Kw ''method'' (Str ''nearest'')]),
               Assign (Subscript (Name ''ds_closest'') (Str ''ndci'')) (BinOp ''/'' (BinOp ''-'' (Attr (Name ''ds_closest'') ''nbart_red_edge_1'') (Attr (Name ''ds_closest'') ''nbart_red'')) (BinOp ''+'' (Attr (Name ''ds_closest'') ''nbart_red_edge_1'') (Attr (Name ''ds_closest'') ''nbart_red''))),
               IfStmt (BinOp ''and'' (BinOp ''=='' (Call (Attr (Name ''np'') ''isnan'') [Call (Attr (Attr (Attr (Name ''ds_closest'') ''ndci'') ''values'') ''item'') []]) (Const ''False'')) (BinOp ''=='' (Call (Attr (Name ''np'') ''isnan'') [Subscript (Name ''site_values'') (Name ''count'')]) (Const ''False'')))
                 [ExprStmt (Call (Attr (Name ''site_names'') ''append'') [Name ''site_name'']),
                  ExprStmt (Call (Attr (Name ''match_dates'') ''append'') [Name ''target_date'']),
                  ExprStmt (Call (Attr (Name ''match_values'') ''append'') [Subscript (Name ''site_values'') (Name ''count'')]),
                  ExprStmt (Call (Attr (Name ''ndci_values'') ''append'') [Call (Name ''round'') [Call (Attr (Attr (Attr (Name ''ds_closest'') ''ndci'') ''values'') ''item'') [],
                     Num ''4'']]),
                  ExprStmt (Call (Attr (Name ''red_values'') ''append'') [Call (Attr (Attr (Attr (Name ''ds_closest'') ''nbart_red'') ''values'') ''item'') []]),
                  ExprStmt (Call (Attr (Name ''rededge_values'') ''append'') [Call (Attr (Attr (Attr (Name ''ds_closest'') ''nbart_red_edge_1'') ''values'') ''item'') []]),
                  ExprStmt (Call (Attr (Name ''time_deltas'') ''append'') [Call (Name ''int'') [Attr (Name ''time_delta'') ''days'']])]
                 []]
              []]],
      Assign (Name ''location_results'') (Call (Attr (Name ''pd'') ''DataFrame'') [DictE [Str ''SiteName'',
         Str ''ObservationDate'', Str ''TimeDelta'', Str ''ObservationValue'', Str ''Red'',
         Str ''RedEdge'', Str ''NDCI''] [Name ''site_names'', Name ''match_dates'',
         Name ''time_deltas'', Name ''match_values'', Name ''red_values'',
         Name ''rededge_values'', Name ''ndci_values'']]),
      Assign (Name ''file_path'') (Str ''MatchedData.csv''),
      ExprStmt (Call (Attr (Name ''location_results'') ''to_csv'') [Name ''file_path'',
         Kw ''na_rep'' (Str ''NaN''), Kw ''index'' (Const ''False'')])]"

definition site_matching_cell_6 :: cell where
  "site_matching_cell_6 =
     [Assign (Name ''X'') (Call (Attr (Call (Attr (Name ''np'') ''asarray'') [Subscript (Name ''location_results'') (Str ''NDCI'')]) ''reshape'') [Num ''-1'',
         Num ''1'']),
      Assign (Name ''y'') (Subscript (Name ''location_results'') (Str ''ObservationValue'')),
      Assign (Name ''x_lin'') (Call (Attr (Call (Attr (Name ''np'') ''linspace'') [Call (Attr (Name ''np'') ''min'') [Name ''X''],
         Call (Attr (Name ''np'') ''max'') [Name ''X''], Num ''100'']) ''reshape'') [Num ''-1'',
         Num ''1'']),
      Assign (Name ''lm'') (Call (Name ''LinearRegression'') []),
      Assign (Name ''model'') (Call (Attr (Name ''lm'') ''fit'') [Name ''X'', Name ''y'']),
      Assign (Name ''predictions'') (Call (Attr (Name ''lm'') ''predict'') [Name ''x_lin''])]"

definition site_matching_cell_7 :: cell where
  "site_matching_cell_7 =
     [ExprStmt (Call (Attr (Attr (Name ''location_results'') ''plot'') ''scatter'') [Kw ''x'' (Str ''NDCI''),
         Kw ''y'' (Str ''ObservationValue'')]),
      ExprStmt (Call (Attr (Name ''plt'') ''plot'') [Name ''x_lin'', Name ''predictions'', Str ''k'']),
      ExprStmt (Call (Attr (Name ''plt'') ''title'') [Str ''Linear fit'']),
      ExprStmt (Call (Attr (Name ''plt'') ''xlabel'') [Str ''NDCI'']),
      ExprStmt (Call (Attr (Name ''plt'') ''ylabel'') [Str ''Chlorophyll-a Concentration (mg/L)'']),
      ExprStmt (Call (Attr (Name ''plt'') ''show'') [])]"

definition site_matching_cell_8 :: cell where
  "site_matching_cell_8 =
     [Assign (Name ''pearson_rsq'') (Call (Attr (Name ''lm'') ''score'') [Name ''X'', Name ''y'']),
      Assign (Name ''spearman_rho'') (Attr (Call (Name ''spearmanr'') [Name ''X'',
         Name ''y'']) ''correlation''),
      ExprStmt (Call (Name ''print'') [Str ''Linear fit results'']),
      ExprStmt (Call (Name ''print'') [FString [Str (''Pearson'' @ [CHR 0x27] @ ''s R^2 = ''),
         Name ''pearson_rsq'']]),
      ExprStmt (Call (Name ''print'') [FString [Str (''Spearman'' @ [CHR 0x27] @ ''s rho = ''),
         Name ''spearman_rho'']])]"

definition site_matching_cell_9 :: cell where
  "site_matching_cell_9 =
     [Assign (Name ''x'') (Subscript (Name ''location_results'') (Str ''NDCI'')),
      Assign (Name ''poly_func'') (Call (Attr (Name ''np'') ''poly1d'') [Call (Attr (Name ''np'') ''polyfit'') [Name ''x'',
         Name ''y'', Kw ''deg'' (Num ''2'')]]),
      Assign (Tuple [Name ''poly_coeff'', Name ''poly_ssqres'', Name ''_'', Name ''_'',
         Name ''_'']) (Call (Attr (Name ''np'') ''polyfit'') [Name ''x'', Name ''y'',
         Kw ''deg'' (Num ''2''), Kw ''full'' (Const ''True'')])]"

definition site_matching_cell_10 :: cell where
  "site_matching_cell_10 =
     [ExprStmt (Call (Attr (Attr (Name ''location_results'') ''plot'') ''scatter'') [Kw ''x'' (Str ''NDCI''),
         Kw ''y'' (Str ''ObservationValue'')]),
      ExprStmt (Call (Attr (Name ''plt'') ''plot'') [Name ''x_lin'',
         Call (Name ''poly_func'') [Name ''x_lin''], Str ''k'']),
      ExprStmt (Call (Attr (Name ''plt'') ''title'') [Str ''Polynomial Fit'']),
      ExprStmt (Call (Attr (Name ''plt'') ''xlabel'') [Str ''NDCI'']),
      ExprStmt (Call (Attr (Name ''plt'') ''ylabel'') [Str ''Chlorophyll-a Concentration (mg/L)'']),
      ExprStmt (Call (Attr (Name ''plt'') ''show'') [])]"

definition site_matching_cell_11 :: cell where
  "site_matching_cell_11 =
     [Assign (Name ''poly_ssqtot'') (Call (Attr (Name ''np'') ''sum'') [BinOp ''**'' (BinOp ''-'' (Name ''y'') (Call (Attr (Name ''np'') ''mean'') [Name ''y''])) (Num ''2'')]),
      Assign (Name ''poly_pearson_rsq'') (BinOp ''-'' (Num ''1'') (BinOp ''/'' (Name ''poly_ssqres'') (Name ''poly_ssqtot''))),
      ExprStmt (Call (Name ''print'') [Str ''Polynomial fit results'']),
      ExprStmt (Call (Name ''print'') [FString [Str (''Pearson'' @ [CHR 0x27] @ ''s R^2 = ''),
         Subscript (Name ''poly_pearson_rsq'') (Num ''0'')]]),
      ExprStmt (Call (Name ''print'') [FString [Str (''Spearman'' @ [CHR 0x27] @ ''s rho = ''),
         Name ''spearman_rho'']])]"

definition site_matching_cell_12 :: cell where
  "site_matching_cell_12 =
     [ExprStmt (Call (Name ''print'') [Attr (Name ''datacube'') ''__version__''])]"

definition site_matching :: notebook where
  "site_matching =
     [site_matching_cell_0, site_matching_cell_1, site_matching_cell_2, site_matching_cell_3,
      site_matching_cell_4, site_matching_cell_5, site_matching_cell_6,
      site_matching_cell_7, site_matching_cell_8, site_matching_cell_9,
      site_matching_cell_10, site_matching_cell_11, site_matching_cell_12]"

text \<open>Dask example, the average colour of Australia (Dask_Average_Colour_Australia.ipynb).\<close>

definition dask_average_colour_cell_0 :: cell where
  "dask_average_colour_cell_0 =
     [Magic ''%matplotlib inline'',
      Import ''datacube'' ''datacube'',
      Import ''numpy'' ''np'',
      Import ''matplotlib.pyplot'' ''plt'',
      Assign (Name ''dc'') (Call (Attr (Name ''datacube'') ''Datacube'') [Kw ''app'' (Str ''dc-visualize'')])]"

definition dask_average_colour_cell_1 :: cell where
  "dask_average_colour_cell_1 =
     [Import ''dask'' ''dask'',
      ImportFrom ''dask.distributed'' ''Client'' ''Client'',
      Assign (Name ''client'') (Call (Name ''Client'') [Str ''dask-datacube-dask.labs:8786''])]"

definition dask_average_colour_cell_2 :: cell where
  "dask_average_colour_cell_2 =
     [Assign (Tuple [Name ''latitude'', Name ''longitude'']) (Tuple [Num ''-25'', Num ''137'']),
      Assign (Name ''buffer'') (Num ''5''),
      Assign (Name ''latitude_range'') (Tuple [BinOp ''-'' (Name ''latitude'') (Name ''buffer''),
         BinOp ''+'' (Name ''latitude'') (Name ''buffer'')]),
      Assign (Name ''longitude_range'') (Tuple [BinOp ''-'' (Name ''longitude'') (Name ''buffer''),
         BinOp ''+'' (Name ''longitude'') (Name ''buffer'')]),
      Assign (Name ''date_range'') (Tuple [Str ''2017-01-01'', Str ''2017-01-01''])]"

definition dask_average_colour_cell_3 :: cell where
  "dask_average_colour_cell_3 =
     [Magic ''%%time'',
      Assign (Name ''ds'') (Call (Attr (Name ''dc'') ''load'') [Kw ''product'' (Str ''ls8_nbart_geomedian_annual''),
         Kw ''x'' (Name ''longitude_range''), Kw ''y'' (Name ''latitude_range''),
         Kw ''output_crs'' (Str ''epsg:3577''), Kw ''resolution'' (Tuple [Num ''-30'',
         Num ''30'']), Kw ''time'' (Name ''date_range''),
         Kw ''measurements'' (ListE [Str ''red'', Str ''green'', Str ''blue'']),
         Kw ''dask_chunks'' (DictE [Str ''x'', Str ''y'', Str ''time''] [Num ''4000'',
         Num ''4000'', Num ''1''])]),
      ExprStmt (Call (Name ''print'') [Name ''ds''])]"

definition dask_average_colour_cell_4 :: cell where
  "dask_average_colour_cell_4 =
     [Assign (Name ''n_pixels'') (BinOp ''*'' (Subscript (Attr (Name ''ds'') ''dims'') (Str ''x'')) (Subscript (Attr (Name ''ds'') ''dims'') (Str ''y''))),
      Assign (Name ''n_pixels_billions'') (BinOp ''/'' (Name ''n_pixels'') (BinOp ''**'' (Num ''10'') (Num ''9''))),
      ExprStmt (Call (Name ''print'') [Call (Attr (Str ''{:2.2f} billion pixels'') ''format'') [Name ''n_pixels_billions'']])]"

definition dask_average_colour_cell_5 :: cell where
  "dask_average_colour_cell_5 =
     [FunDef ''get_rgb'' [''scaled_ds'']
        [Assign (Name ''rgb_values'') (ListComp (Call (Name ''int'') [BinOp ''*'' (Call (Attr (Name ''np'') ''clip'') [Subscript (Name ''scaled_ds'') (Name ''band''),
            Num ''0'', Num ''1'']) (Num ''255'')]) [''band''] (ListE [Str ''red'', Str ''green'',
            Str ''blue''])),
         Assign (Tuple [Name ''red'', Name ''green'', Name ''blue'']) (Name ''rgb_values''),
         Assign (Name ''hex_value'') (Call (Attr (Str ''#{:02x}{:02x}{:02x}'') ''format'') [Name ''red'',
            Name ''green'', Name ''blue'']),
         Return (Tuple [Name ''rgb_values'', Name ''hex_value''])]]"

definition dask_average_colour_cell_6 :: cell where
  "dask_average_colour_cell_6 =
     [Magic ''%%time'',
      Assign (Name ''average'') (Call (Attr (Call (Attr (Name ''ds'') ''where'') [BinOp ''>'' (Name ''ds'') (Num ''0'')]) ''mean'') []),
      Assign (Name ''scaling_factor'') (Num ''3000''),
      Assign (Name ''scaled_average'') (BinOp ''/'' (Name ''average'') (Name ''scaling_factor'')),
      Assign (Tuple [Name ''rgb'',
         Name ''hex_colour'']) (Call (Name ''get_rgb'') [Name ''scaled_average'']),
      ExprStmt (Call (Name ''print'') [Call (Attr (Str ''Hex Code: {}'') ''format'') [Name ''hex_colour'']]),
      ExprStmt (Call (Name ''print'') [Call (Attr (Str ''Red: {}, Green: {}, Blue: {}'') ''format'') [Subscript (Name ''rgb'') (Num ''0''),
         Subscript (Name ''rgb'') (Num ''1''), Subscript (Name ''rgb'') (Num ''2'')]])]"

definition dask_average_colour_cell_7 :: cell where
  "dask_average_colour_cell_7 =
     [ImportFrom ''matplotlib.patches'' ''Rectangle'' ''Rectangle'',
      Assign (Tuple [Name ''fig'',
         Name ''ax'']) (Call (Attr (Name ''plt'') ''subplots'') [Kw ''figsize'' (Tuple [Num ''5'',
         Num ''5''])]),
      ExprStmt (Call (Attr (Name ''ax'') ''add_patch'') [Call (Name ''Rectangle'') [Tuple [Num ''0.0'',
         Num ''0.0''], Num ''1.0'', Num ''1.0'', Kw ''alpha'' (Num ''1''),
         Kw ''facecolor'' (Name ''hex_colour'')]]),
      ExprStmt (Call (Attr (Name ''plt'') ''show'') [])]"

definition dask_average_colour :: notebook where
  "dask_average_colour =
     [dask_average_colour_cell_0, dask_average_colour_cell_1, dask_average_colour_cell_2,
      dask_average_colour_cell_3, dask_average_colour_cell_4, dask_average_colour_cell_5,
      dask_average_colour_cell_6, dask_average_colour_cell_7]"

text \<open>Tiled, parallel image segmentation (the second notebook in the same source file).\<close>

definition tiled_segmentation_cell_0 :: cell where
  "tiled_segmentation_cell_0 =
     [Assign (Name ''inputTiff'') (Str ''data/nmdb_Summer2017_18_NDVI_max.tif''),
      Assign (Name ''InputKEA'') (Str ''data/nmdb_Summer2017_18_NDVI_max.kea''),
      Assign (Name ''ClumpsFile'') (Str ''results/nmdb_Summer2017_18_NDVI_max_OutClumps.kea''),
      Assign (Name ''meanImageTiff'') (Str ''results/nmdb_Summer2017_18_NDVI_max_ClumpMean.tif''),
      Assign (Name ''temp'') (Str ''tmps/''),
      Assign (Name ''ncpus'') (Num ''5''),
      Assign (Name ''validDataTileFraction'') (Num ''0.3''),
      Assign (Name ''width'') (Num ''8000''),
      Assign (Name ''height'') (Num ''8000'')]"

definition tiled_segmentation_cell_1 :: cell where
  "tiled_segmentation_cell_1 =
     [ImportFrom ''osgeo'' ''gdal'' ''gdal'',
      Import ''os'' ''os'',
      Import ''osr'' ''osr'',
      ImportFrom ''rsgislib.segmentation'' ''meanImage'' ''meanImage'',
      Import ''rsgislib'' ''rsgislib'',
      ImportFrom ''pathos.multiprocessing'' ''ProcessingPool'' ''Pool'',
      Import ''dill'' ''dill'',
      Import ''xarray'' ''xr'',
      Import ''numpy'' ''np'',
      Import ''sys'' ''sys'',
      ExprStmt (Call (Attr (Attr (Name ''sys'') ''path'') ''append'') [Str ''../10_Scripts'']),
      Import ''tiledSegParallel'' ''tiledSegParallel'',
      ImportFrom ''SpatialTools'' ''geotransform'' ''geotransform'',
      ImportFrom ''SpatialTools'' ''array_to_geotiff'' ''array_to_geotiff'']"

definition tiled_segmentation_cell_2 :: cell where
  "tiled_segmentation_cell_2 =
     [ExprStmt (Call (Attr (Name ''gdal'') ''Translate'') [Name ''InputKEA'', Name ''inputTiff'',
         Kw ''format'' (Str ''KEA''), Kw ''outputSRS'' (Str ''EPSG:3577'')])]"

definition tiled_segmentation_cell_3 :: cell where
  "tiled_segmentation_cell_3 =
     [ExprStmt (Call (Attr (Name ''tiledSegParallel'') ''performTiledSegmentation'') [Name ''InputKEA'',
         Name ''ClumpsFile'', Kw ''tmpDIR'' (Name ''temp''), Kw ''numClusters'' (Num ''20''),
         Kw ''validDataThreshold'' (Name ''validDataTileFraction''),
         Kw ''tileWidth'' (Name ''width''), Kw ''tileHeight'' (Name ''height''),
         Kw ''minPxls'' (Num ''100''), Kw ''ncpus'' (Name ''ncpus'')])]"

definition tiled_segmentation_cell_4 :: cell where
  "tiled_segmentation_cell_4 =
     [ExprStmt (Call (Name ''meanImage'') [Name ''inputTiff'', Name ''ClumpsFile'',
         Name ''meanImageTiff'', Str ''GTIFF'', Attr (Name ''rsgislib'') ''TYPE_32FLOAT''])]"

definition tiled_segmentation_cell_5 :: cell where
  "tiled_segmentation_cell_5 =
     [Assign (Name ''a'') (Call (Attr (Call (Attr (Name ''xr'') ''open_rasterio'') [Name ''ClumpsFile'']) ''squeeze'') []),
      Assign (Tuple [Name ''transform'',
         Name ''projection'']) (Call (Name ''geotransform'') [Name ''a'',
         Tuple [Attr (Name ''a'') ''x'', Attr (Name ''a'') ''y''], Kw ''epsg'' (Num ''3577'')]),
      Assign (Tuple [Name ''width'', Name ''height'']) (Attr (Name ''a'') ''shape''),
      ExprStmt (Call (Name ''array_to_geotiff'') [BinOp ''+'' (Subscript (Name ''ClumpsFile'') (Slice [Num ''-4''])) (Str ''.tif''),
         Attr (Name ''a'') ''values'', Kw ''geo_transform'' (Name ''transform''),
         Kw ''projection'' (Name ''projection''), Kw ''nodata_val'' (Num ''-999'')])]"

definition tiled_segmentation :: notebook where
  "tiled_segmentation =
     [tiled_segmentation_cell_0, tiled_segmentation_cell_1, tiled_segmentation_cell_2,
      tiled_segmentation_cell_3, tiled_segmentation_cell_4, tiled_segmentation_cell_5]"

text \<open>Tracking rehabilitation of mines (Mining.ipynb).\<close>

definition mining_cell_0 :: cell where
  "mining_cell_0 =
     [Magic ''%matplotlib inline'',
      ImportFrom ''utils.casestudy_mining_functions'' ''load_mining_data'' ''load_mining_data'',
      ImportFrom ''utils.casestudy_mining_functions'' ''run_mining_app'' ''run_mining_app'']"

definition mining_cell_1 :: cell where
  "mining_cell_1 =
     [Assign (Name ''dataset_fc'') (Call (Name ''load_mining_data'') [])]"

definition mining_cell_2 :: cell where
  "mining_cell_2 =
     [ExprStmt (Call (Name ''run_mining_app'') [Name ''dataset_fc''])]"

definition mining :: notebook where
  "mining =
     [mining_cell_0, mining_cell_1, mining_cell_2]"

text \<open>Detecting change in Australian forestry (Forestry.ipynb).\<close>

definition forestry_cell_0 :: cell where
  "forestry_cell_0 =
     [Magic ''%matplotlib inline'',
      Import ''datacube'' ''datacube'',
      ImportFrom ''datacube.helpers'' ''write_geotiff'' ''write_geotiff'',
      ImportFrom ''datacube.utils.geometry'' ''CRS'' ''CRS'',
      Import ''matplotlib.pyplot'' ''plt'',
      Import ''numpy'' ''np'',
      Import ''pandas'' ''pd'',
      ImportFrom ''scipy'' ''stats'' ''stats'',
      Import ''sys'' ''sys'',
      Import ''xarray'' ''xr'',
      ImportFrom ''utils.dea_datahandling'' ''load_ard'' ''load_ard'',
      ImportFrom ''utils.dea_bandindices'' ''calculate_indices'' ''calculate_indices'',
      ImportFrom ''utils.dea_plotting'' ''display_map'' ''display_map'',
      ImportFrom ''utils.dea_plotting'' ''rgb'' ''rgb'']"

definition forestry_cell_1 :: cell where
  "forestry_cell_1 =
     [Assign (Name ''dc'') (Call (Attr (Name ''datacube'') ''Datacube'') [Kw ''app'' (Str ''Change_detection'')])]"

definition forestry_cell_2 :: cell where
  "forestry_cell_2 =
     [Assign (Name ''latitude'') (Tuple [Num ''-35.271'', Num ''-35.331'']),
      Assign (Name ''longitude'') (Tuple [Num ''149.256'', Num ''149.356'']),
      Assign (Name ''time'') (Tuple [Str ''2015-01-01'', Str ''2019-09-01'']),
      Assign (Name ''time_baseline'') (Str ''2017-12-01'')]"

definition forestry_cell_3 :: cell where
  "forestry_cell_3 =
     [ExprStmt (Call (Name ''display_map'') [Kw ''x'' (Name ''longitude''),
         Kw ''y'' (Name ''latitude'')])]"

definition forestry_cell_4 :: cell where
  "forestry_cell_4 =
     [Assign (Name ''products'') (ListE [Str ''s2a_ard_granule'', Str ''s2b_ard_granule'']),
      Assign (Name ''query'') (DictE [Str ''x'', Str ''y'', Str ''time'', Str ''measurements'',
         Str ''output_crs'', Str ''resolution''] [Name ''longitude'', Name ''latitude'',
         Name ''time'', ListE [Str ''nbart_red'', Str ''nbart_green'', Str ''nbart_blue'',
         Str ''nbart_nir_1'', Str ''fmask''], Str ''EPSG:3577'', Tuple [Num ''-10'', Num ''10'']]),
      Assign (Name ''ds_s2'') (Call (Name ''load_ard'') [Name ''dc'',
         Kw ''products'' (Name ''products''), Kw ''min_gooddata'' (Num ''0.7''),
         Kw ''**'' (Name ''query'')])]"

definition forestry_cell_5 :: cell where
  "forestry_cell_5 =
     [ExprStmt (Call (Name ''print'') [Name ''ds_s2''])]"

definition forestry_cell_6 :: cell where
  "forestry_cell_6 =
     [Assign (Name ''initial_timestep'') (Num ''1''),
      Assign (Name ''final_timestep'') (Num ''76''),
      ExprStmt (Call (Name ''rgb'') [Name ''ds_s2'', Kw ''index'' (ListE [Name ''initial_timestep'',
         Name ''final_timestep''])])]"

definition forestry_cell_7 :: cell where
  "forestry_cell_7 =
     [Assign (Name ''ds_s2'') (Call (Name ''calculate_indices'') [Name ''ds_s2'', Str ''NDVI'',
         Kw ''collection'' (Str ''ga_sentinel2_1'')])]"

definition forestry_cell_8 :: cell where
  "forestry_cell_8 =
     [ExprStmt (Call (Attr (Attr (Call (Attr (Attr (Name ''ds_s2'') ''NDVI'') ''isel'') [Kw ''time'' (ListE [Name ''initial_timestep'',
         Name ''final_timestep''])]) ''plot'') ''imshow'') [Str ''x'', Str ''y'',
         Kw ''col'' (Str ''time''), Kw ''cmap'' (Str ''RdYlGn''), Kw ''vmin'' (Num ''0''),
         Kw ''vmax'' (Num ''1''), Kw ''figsize'' (Tuple [Num ''18'', Num ''6''])]),
      ExprStmt (Call (Attr (Name ''plt'') ''show'') [])]"

definition forestry_cell_9 :: cell where
  "forestry_cell_9 =
     [Assign (Name ''baseline_sample'') (Call (Attr (Attr (Name ''ds_s2'') ''NDVI'') ''sel'') [Kw ''time'' (BinOp ''<='' (Subscript (Name ''ds_s2'') (Str ''time'')) (Call (Attr (Name ''np'') ''datetime64'') [Name ''time_baseline'']))]),
      ExprStmt (Call (Name ''print'') [FString [Str ''Number of observations in baseline sample: '',
         Call (Name ''len'') [Attr (Name ''baseline_sample'') ''time'']]]),
      Assign (Name ''postbaseline_sample'') (Call (Attr (Attr (Name ''ds_s2'') ''NDVI'') ''sel'') [Kw ''time'' (BinOp ''>'' (Subscript (Name ''ds_s2'') (Str ''time'')) (Call (Attr (Name ''np'') ''datetime64'') [Name ''time_baseline'']))]),
      ExprStmt (Call (Name ''print'') [FString [Str ''Number of observations in postbaseline sample: '',
         Call (Name ''len'') [Attr (Name ''postbaseline_sample'') ''time'']]]),
      Assign (Name ''sample_lat_coords'') (Subscript (Attr (Name ''ds_s2'') ''coords'') (Str ''y'')),
      Assign (Name ''sample_lon_coords'') (Subscript (Attr (Name ''ds_s2'') ''coords'') (Str ''x''))]"

definition forestry_cell_10 :: cell where
  "forestry_cell_10 =
     [Assign (Tuple [Name ''tstat'',
         Name ''p_tstat'']) (Call (Attr (Name ''stats'') ''ttest_ind'') [Attr (Name ''postbaseline_sample'') ''values'',
         Attr (Name ''baseline_sample'') ''values'', Kw ''equal_var'' (Const ''False''),
         Kw ''nan_policy'' (Str ''omit'')]),
      Assign (Name ''t_test'') (Call (Attr (Name ''xr'') ''Dataset'') [DictE [Str ''t_stat'',
         Str ''p_val''] [Tuple [ListE [Str ''y'', Str ''x''], Name ''tstat''],
         Tuple [ListE [Str ''y'', Str ''x''], Name ''p_tstat'']],
         Kw ''coords'' (DictE [Str ''x'', Str ''y''] [Tuple [ListE [Str ''x''],
         Attr (Name ''sample_lon_coords'') ''values''], Tuple [ListE [Str ''y''],
         Attr (Name ''sample_lat_coords'') ''values'']]),
         Kw ''attrs'' (DictE [Str ''crs''] [Str ''EPSG:3577''])]),
      ExprStmt (Call (Name ''print'') [Name ''t_test''])]"

definition forestry_cell_11 :: cell where
  "forestry_cell_11 =
     [Assign (Name ''sig_level'') (Num ''0.05''),
      Assign (Name ''diff_mean'') (BinOp ''-'' (Call (Attr (Name ''postbaseline_sample'') ''mean'') [Kw ''dim'' (ListE [Str ''time''])]) (Call (Attr (Name ''baseline_sample'') ''mean'') [Kw ''dim'' (ListE [Str ''time''])])),
      Assign (Tuple [Name ''fig'', Name ''ax'']) (Call (Attr (Name ''plt'') ''subplots'') [Num ''1'',
         Num ''1'', Kw ''figsize'' (Tuple [Num ''7'', Num ''5''])]),
      ExprStmt (Call (Attr (Name ''diff_mean'') ''plot'') [Kw ''cmap'' (Str ''RdBu'')]),
      ExprStmt (Call (Attr (Name ''ax'') ''set_title'') [Str ''Any difference in the mean'']),
      ExprStmt (Call (Attr (Name ''plt'') ''show'') []),
      Assign (Name ''sig_diff_mean'') (BinOp ''-'' (Call (Attr (Call (Attr (Name ''postbaseline_sample'') ''mean'') [Kw ''dim'' (ListE [Str ''time''])]) ''where'') [BinOp ''<'' (Attr (Name ''t_test'') ''p_val'') (Name ''sig_level'')]) (Call (Attr (Call (Attr (Name ''baseline_sample'') ''mean'') [Kw ''dim'' (ListE [Str ''time''])]) ''where'') [BinOp ''<'' (Attr (Name ''t_test'') ''p_val'') (Name ''sig_level'')])),
      Assign (Tuple [Name ''fig'', Name ''ax'']) (Call (Attr (Name ''plt'') ''subplots'') [Num ''1'',
         Num ''1'', Kw ''figsize'' (Tuple [Num ''7'', Num ''5''])]),
      ExprStmt (Call (Attr (Name ''sig_diff_mean'') ''plot'') [Kw ''cmap'' (Str ''RdBu'')]),
      ExprStmt (Call (Attr (Name ''ax'') ''set_title'') [Str ''Statistically significant difference in the mean'']),
      ExprStmt (Call (Attr (Name ''plt'') ''show'') [])]"

definition forestry_cell_12 :: cell where
  "forestry_cell_12 =
     [Assign (Name ''diff_mean_out'') (Call (Attr (Name ''xr'') ''Dataset'') [DictE [Str ''diff_mean''] [Name ''diff_mean''],
         Kw ''attrs'' (DictE [Str ''crs''] [Call (Name ''CRS'') [Str ''EPSG:3577'']])]),
      Assign (Name ''sig_diff_mean_out'') (Call (Attr (Name ''xr'') ''Dataset'') [DictE [Str ''sig_diff_mean''] [Name ''sig_diff_mean''],
         Kw ''attrs'' (DictE [Str ''crs''] [Call (Name ''CRS'') [Str ''EPSG:3577'']])]),
      ExprStmt (Call (Name ''write_geotiff'') [Kw ''filename'' (Str ''ttest_diff_mean.tif''),
         Kw ''dataset'' (Name ''diff_mean_out'')]),
      ExprStmt (Call (Name ''write_geotiff'') [Kw ''filename'' (Str ''ttest_sig_diff_mean.tif''),
         Kw ''dataset'' (Name ''sig_diff_mean_out'')])]"

definition forestry_cell_13 :: cell where
  "forestry_cell_13 =
     [ExprStmt (Call (Name ''print'') [Attr (Name ''datacube'') ''__version__''])]"

definition forestry :: notebook where
  "forestry =
     [forestry_cell_0, forestry_cell_1, forestry_cell_2, forestry_cell_3, forestry_cell_4,
      forestry_cell_5, forestry_cell_6, forestry_cell_7, forestry_cell_8,
      forestry_cell_9, forestry_cell_10, forestry_cell_11, forestry_cell_12,
      forestry_cell_13]"

text \<open>Coastal erosion case study.\<close>

definition coastal_erosion_cell_0 :: cell where
  "coastal_erosion_cell_0 =
     [Import ''datacube'' ''datacube'',
      Import ''sys'' ''sys'',
      Import ''xarray'' ''xr'',
      Import ''pandas'' ''pd'',
      Import ''numpy'' ''np'',
      Import ''matplotlib.pyplot'' ''plt'',
      ImportFrom ''utils'' ''waterline_funcs'' ''waterline_funcs'',
      ImportFrom ''utils.display'' ''display_map'' ''display_map'']"

definition coastal_erosion_cell_1 :: cell where
  "coastal_erosion_cell_1 =
     [Assign (Name ''lat_range'') (Tuple [Num ''-27.715'', Num ''-27.755'']),
      Assign (Name ''lon_range'') (Tuple [Num ''153.42'', Num ''153.46'']),
      Assign (Name ''time_range'') (Tuple [Str ''1988'', Str ''2018'']),
      Assign (Name ''time_step'') (Str ''2Y''),
      Assign (Name ''tide_range'') (Tuple [Num ''0.0'', Num ''1.4''])]"

definition coastal_erosion_cell_2 :: cell where
  "coastal_erosion_cell_2 =
     [ExprStmt (Call (Name ''display_map'') [Kw ''latitude'' (Name ''lat_range''),
         Kw ''longitude'' (Name ''lon_range'')])]"

definition coastal_erosion_cell_3 :: cell where
  "coastal_erosion_cell_3 =
     [Assign (Name ''dc'') (Call (Attr (Name ''datacube'') ''Datacube'') [Kw ''app'' (Str ''Coastal erosion'')]),
      Assign (Name ''query'') (DictE [Str ''y'', Str ''x'', Str ''time'', Str ''output_crs'',
         Str ''resolution''] [Name ''lat_range'', Name ''lon_range'', Name ''time_range'',
         Str ''EPSG:28356'', Tuple [Num ''-30'', Num ''30'']]),
      Assign (Name ''landsat_ds'') (Call (Attr (Name ''waterline_funcs'') ''load_cloudmaskedlandsat'') [Name ''dc'',
         Name ''query'', Kw ''bands'' (ListE [Str ''nbart_red'', Str ''nbart_green'',
         Str ''nbart_blue'', Str ''nbart_swir_1''])]),
      ExprStmt (Call (Name ''print'') [Name ''landsat_ds''])]"

definition coastal_erosion_cell_4 :: cell where
  "coastal_erosion_cell_4 =
     [ExprStmt (Call (Attr (Name ''waterline_funcs'') ''rgb'') [Name ''landsat_ds'',
         Kw ''index'' (Num ''0''), Kw ''percentile_stretch'' (Tuple [Num ''0.0'', Num ''0.9''])])]"

definition coastal_erosion_cell_5 :: cell where
  "coastal_erosion_cell_5 =
     [Assign (Subscript (Name ''landsat_ds'') (Str ''water_index'')) (BinOp ''/'' (BinOp ''-'' (Attr (Name ''landsat_ds'') ''green'') (Attr (Name ''landsat_ds'') ''swir1'')) (BinOp ''+'' (Attr (Name ''landsat_ds'') ''green'') (Attr (Name ''landsat_ds'') ''swir1''))),
      ExprStmt (Call (Attr (Call (Attr (Attr (Name ''landsat_ds'') ''water_index'') ''isel'') [Kw ''time'' (Num ''0'')]) ''plot'') [Kw ''cmap'' (Str ''RdBu''),
         Kw ''size'' (Num ''6''), Kw ''aspect'' (Num ''1''), Kw ''vmin'' (Num ''-0.8''),
         Kw ''vmax'' (Num ''0.8'')]),
      ExprStmt (Call (Attr (Name ''plt'') ''show'') [])]"

definition coastal_erosion_cell_6 :: cell where
  "coastal_erosion_cell_6 =
     [Assign (Name ''landsat_ds'') (Call (Attr (Name ''waterline_funcs'') ''tidal_tag'') [Kw ''ds'' (Name ''landsat_ds''),
         Kw ''tidepost_lat'' (Const ''None''), Kw ''tidepost_lon'' (Const ''None'')]),
      ExprStmt (Call (Name ''print'') [Name ''landsat_ds''])]"

definition coastal_erosion_cell_7 :: cell where
  "coastal_erosion_cell_7 =
     [ExprStmt (Call (Attr (Attr (Name ''landsat_ds'') ''tide_height'') ''plot'') []),
      ExprStmt (Call (Attr (Name ''plt'') ''axhline'') [Subscript (Name ''tide_range'') (Num ''0''),
         Kw ''c'' (Str ''red''), Kw ''linestyle'' (Str ''--'')]),
      ExprStmt (Call (Attr (Name ''plt'') ''axhline'') [Subscript (Name ''tide_range'') (Num ''1''),
         Kw ''c'' (Str ''red''), Kw ''linestyle'' (Str ''--'')]),
      ExprStmt (Call (Attr (Name ''plt'') ''show'') [])]"

definition coastal_erosion_cell_8 :: cell where
  "coastal_erosion_cell_8 =
     [Assign (Name ''landsat_filtered'') (Call (Attr (Name ''landsat_ds'') ''where'') [BinOp ''&'' (BinOp ''>'' (Attr (Name ''landsat_ds'') ''tide_height'') (Subscript (Name ''tide_range'') (Num ''0''))) (BinOp ''<'' (Attr (Name ''landsat_ds'') ''tide_height'') (Subscript (Name ''tide_range'') (Num ''1''))),
         Kw ''drop'' (Const ''True'')]),
      ExprStmt (Call (Name ''print'') [Name ''landsat_filtered''])]"

definition coastal_erosion_cell_9 :: cell where
  "coastal_erosion_cell_9 =
     [Assign (Name ''landsat_summaries'') (Call (Attr (Call (Attr (Call (Attr (Attr (Name ''landsat_filtered'') ''water_index'') ''compute'') []) ''resample'') [Kw ''time'' (Name ''time_step'')]) ''median'') [Str ''time'']),
      ExprStmt (Call (Attr (Name ''landsat_summaries'') ''plot'') [Kw ''col'' (Str ''time''),
         Kw ''cmap'' (Str ''RdBu''), Kw ''col_wrap'' (Num ''4''), Kw ''aspect'' (Num ''1''),
         Kw ''vmin'' (Num ''-0.8''), Kw ''vmax'' (Num ''0.8'')]),
      ExprStmt (Call (Attr (Name ''plt'') ''show'') [])]"

definition coastal_erosion_cell_10 :: cell where
  "coastal_erosion_cell_10 =
     [Assign (Name ''attribute_data'') (DictE [Str ''time''] [ListComp (Subscript (Call (Name ''str'') [Name ''i'']) (Slice [Num ''0'',
         Num ''10''])) [''i''] (Attr (Attr (Name ''landsat_summaries'') ''time'') ''values'')]),
      Assign (Name ''attribute_dtypes'') (DictE [Str ''time''] [Str ''str'']),
      Assign (Name ''contour_gdf'') (Call (Attr (Name ''waterline_funcs'') ''contour_extract'') [Kw ''z_values'' (ListE [Num ''0'']),
         Kw ''ds_array'' (Name ''landsat_summaries''),
         Kw ''ds_crs'' (Attr (Name ''landsat_ds'') ''crs''),
         Kw ''ds_affine'' (Attr (Attr (Name ''landsat_ds'') ''geobox'') ''transform''),
         Kw ''output_shp'' (FString [Str ''output_waterlines.shp'']),
         Kw ''attribute_data'' (Name ''attribute_data''),
         Kw ''attribute_dtypes'' (Name ''attribute_dtypes''), Kw ''min_vertices'' (Num ''50'')]),
      ExprStmt (Call (Attr (Call (Attr (Name ''landsat_summaries'') ''isel'') [Kw ''time'' (Num ''0'')]) ''plot'') [Kw ''size'' (Num ''12''),
         Kw ''aspect'' (Num ''1''), Kw ''cmap'' (Str ''Greys'')]),
      ExprStmt (Call (Attr (Name ''contour_gdf'') ''plot'') [Kw ''ax'' (Call (Attr (Name ''plt'') ''gca'') []),
         Kw ''cmap'' (Str ''YlOrRd'')]),
      ExprStmt (Call (Attr (Name ''plt'') ''show'') [])]"

definition coastal_erosion_cell_11 :: cell where
  "coastal_erosion_cell_11 =
     [ExprStmt (Call (Attr (Name ''waterline_funcs'') ''map_shapefile'') [Kw ''gdf'' (Name ''contour_gdf'')])]"

definition coastal_erosion :: notebook where
  "coastal_erosion =
     [coastal_erosion_cell_0, coastal_erosion_cell_1, coastal_erosion_cell_2,
      coastal_erosion_cell_3, coastal_erosion_cell_4, coastal_erosion_cell_5,
      coastal_erosion_cell_6, coastal_erosion_cell_7, coastal_erosion_cell_8,
      coastal_erosion_cell_9, coastal_erosion_cell_10, coastal_erosion_cell_11]"

text \<open>Intertidal elevation modelling case study.\<close>

definition intertidal_elevation_cell_0 :: cell where
  "intertidal_elevation_cell_0 =
     [Import ''datacube'' ''datacube'',
      Import ''sys'' ''sys'',
      Import ''xarray'' ''xr'',
      Import ''pandas'' ''pd'',
      Import ''numpy'' ''np'',
      Import ''matplotlib.pyplot'' ''plt'',
      ImportFrom ''utils'' ''waterline_funcs'' ''waterline_funcs'',
      ImportFrom ''utils.display'' ''display_map'' ''display_map'']"

definition intertidal_elevation_cell_1 :: cell where
  "intertidal_elevation_cell_1 =
     [Assign (Name ''lat_range'') (Tuple [Num ''-27.6'', Num ''-27.665'']),
      Assign (Name ''lon_range'') (Tuple [Num ''153.33'', Num ''153.425'']),
      Assign (Name ''time_range'') (Tuple [Str ''1987'', Str ''2019'']),
      Assign (Name ''tide_file'') (Str ''data/tide_heights/moretonbay_-27.552_153.355_tides.csv'')]"

definition intertidal_elevation_cell_2 :: cell where
  "intertidal_elevation_cell_2 =
     [ExprStmt (Call (Name ''display_map'') [Kw ''latitude'' (Name ''lat_range''),
         Kw ''longitude'' (Name ''lon_range'')])]"

definition intertidal_elevation_cell_3 :: cell where
  "intertidal_elevation_cell_3 =
     [Assign (Name ''dc'') (Call (Attr (Name ''datacube'') ''Datacube'') [Kw ''app'' (Str ''Intertidal elevation'')]),
      Assign (Name ''query'') (DictE [Str ''y'', Str ''x'', Str ''time'', Str ''output_crs'',
         Str ''resolution''] [Name ''lat_range'', Name ''lon_range'', Name ''time_range'',
         Str ''EPSG:28356'', Tuple [Num ''-30'', Num ''30'']]),
      Assign (Name ''landsat_ds'') (Call (Attr (Name ''waterline_funcs'') ''load_cloudmaskedlandsat'') [Name ''dc'',
         Name ''query'', Kw ''bands'' (ListE [Str ''nbart_red'', Str ''nbart_green'',
         Str ''nbart_blue'', Str ''nbart_nir''])]),
      ExprStmt (Call (Name ''print'') [Name ''landsat_ds''])]"

definition intertidal_elevation_cell_4 :: cell where
  "intertidal_elevation_cell_4 =
     [ExprStmt (Call (Attr (Name ''waterline_funcs'') ''rgb'') [Name ''landsat_ds'',
         Kw ''index'' (Num ''0'')])]"

definition intertidal_elevation_cell_5 :: cell where
  "intertidal_elevation_cell_5 =
     [Assign (Subscript (Name ''landsat_ds'') (Str ''water_index'')) (BinOp ''/'' (BinOp ''-'' (Attr (Name ''landsat_ds'') ''green'') (Attr (Name ''landsat_ds'') ''nir'')) (BinOp ''+'' (Attr (Name ''landsat_ds'') ''green'') (Attr (Name ''landsat_ds'') ''nir''))),
      ExprStmt (Call (Attr (Call (Attr (Attr (Name ''landsat_ds'') ''water_index'') ''isel'') [Kw ''time'' (Num ''0'')]) ''plot'') [Kw ''cmap'' (Str ''RdBu''),
         Kw ''size'' (Num ''6''), Kw ''vmin'' (Num ''-0.8''), Kw ''vmax'' (Num ''0.8'')]),
      ExprStmt (Call (Attr (Name ''plt'') ''show'') [])]"

definition intertidal_elevation_cell_6 :: cell where
  "intertidal_elevation_cell_6 =
     [Assign (Name ''tide_data'') (Call (Attr (Name ''pd'') ''read_csv'') [Name ''tide_file'',
         Kw ''parse_dates'' (ListE [Str ''time'']), Kw ''index_col'' (Str ''time'')]),
      ExprStmt (Call (Attr (Name ''tide_data'') ''head'') [])]"

definition intertidal_elevation_cell_7 :: cell where
  "intertidal_elevation_cell_7 =
     [Assign (Name ''tide_data_xr'') (Call (Attr (Name ''tide_data'') ''to_xarray'') []),
      Assign (Name ''landsat_tideheights'') (Call (Attr (Name ''tide_data_xr'') ''interp'') [Kw ''time'' (Attr (Name ''landsat_ds'') ''time'')]),
      Assign (Subscript (Name ''landsat_ds'') (Str ''tide_height'')) (Attr (Name ''landsat_tideheights'') ''tide_height''),
      ExprStmt (Call (Attr (Attr (Name ''landsat_ds'') ''tide_height'') ''plot'') []),
      ExprStmt (Call (Attr (Name ''plt'') ''show'') [])]"

definition intertidal_elevation_cell_8 :: cell where
  "intertidal_elevation_cell_8 =
     [Assign (Name ''landsat_ds'') (Call (Attr (Name ''landsat_ds'') ''sortby'') [Str ''tide_height'']),
      Assign (Name ''binInterval'') (Attr (Call (Attr (Attr (Name ''landsat_ds'') ''tide_height'') ''quantile'') [Call (Attr (Name ''np'') ''linspace'') [Num ''0'',
         Num ''1.0'', Num ''10'']]) ''values''),
      Assign (Name ''tide_intervals'') (Call (Attr (Name ''pd'') ''cut'') [Attr (Name ''landsat_ds'') ''tide_height'',
         Kw ''bins'' (Name ''binInterval''), Kw ''labels'' (Call (Name ''range'') [Num ''1'',
         Num ''10'']), Kw ''include_lowest'' (Const ''True'')]),
      Assign (Subscript (Name ''landsat_ds'') (Str ''tide_interval'')) (Call (Attr (Name ''xr'') ''DataArray'') [Name ''tide_intervals'',
         ListE [Tuple [Str ''time'', Attr (Name ''landsat_ds'') ''time'']]]),
      ExprStmt (Call (Name ''print'') [Name ''landsat_ds''])]"

definition intertidal_elevation_cell_9 :: cell where
  "intertidal_elevation_cell_9 =
     [Assign (Name ''landsat_intervals'') (Call (Attr (Call (Attr (Call (Attr (Subscript (Name ''landsat_ds'') (ListE [Str ''tide_interval'',
         Str ''water_index'',
         Str ''tide_height''])) ''compute'') []) ''groupby'') [Str ''tide_interval'']) ''median'') [Kw ''dim'' (Str ''time'')]),
      ExprStmt (Call (Attr (Attr (Name ''landsat_intervals'') ''water_index'') ''plot'') [Kw ''col'' (Str ''tide_interval''),
         Kw ''col_wrap'' (Num ''5''), Kw ''cmap'' (Str ''RdBu'')]),
      ExprStmt (Call (Attr (Name ''plt'') ''show'') [])]"

definition intertidal_elevation_cell_10 :: cell where
  "intertidal_elevation_cell_10 =
     [Assign (Name ''attribute_data'') (DictE [Str ''tide_m''] [Attr (Attr (Name ''landsat_intervals'') ''tide_height'') ''values'']),
      Assign (Name ''attribute_dtypes'') (DictE [Str ''tide_m''] [Str ''float'']),
      Assign (Name ''contour_gdf'') (Call (Attr (Name ''waterline_funcs'') ''contour_extract'') [Kw ''z_values'' (ListE [Num ''0'']),
         Kw ''ds_array'' (Attr (Name ''landsat_intervals'') ''water_index''),
         Kw ''ds_crs'' (Attr (Name ''landsat_ds'') ''crs''),
         Kw ''ds_affine'' (Attr (Attr (Name ''landsat_ds'') ''geobox'') ''transform''),
         Kw ''output_shp'' (FString [Str ''output_depthcontours.shp'']),
         Kw ''attribute_data'' (Name ''attribute_data''),
         Kw ''attribute_dtypes'' (Name ''attribute_dtypes''), Kw ''min_vertices'' (Num ''5''),
         Kw ''dim'' (Str ''tide_interval'')]),
      Assign (Tuple [Name ''fig'', Name ''ax'']) (Call (Attr (Name ''plt'') ''subplots'') [Num ''1'',
         Num ''1'', Kw ''figsize'' (Tuple [Num ''15'', Num ''10''])]),
      ExprStmt (Call (Attr (Call (Attr (Attr (Name ''landsat_intervals'') ''water_index'') ''sel'') [Kw ''tide_interval'' (Num ''1'')]) ''plot'') [Kw ''ax'' (Name ''ax''),
         Kw ''cmap'' (Str ''Greys'')]),
      ExprStmt (Call (Attr (Name ''contour_gdf'') ''plot'') [Kw ''cmap'' (Str ''YlOrRd''),
         Kw ''ax'' (Name ''ax'')]),
      ExprStmt (Call (Attr (Name ''plt'') ''show'') [])]"

definition intertidal_elevation_cell_11 :: cell where
  "intertidal_elevation_cell_11 =
     [ExprStmt (Call (Attr (Name ''waterline_funcs'') ''map_shapefile'') [Kw ''gdf'' (Name ''contour_gdf'')])]"

definition intertidal_elevation_cell_12 :: cell where
  "intertidal_elevation_cell_12 =
     [Assign (Name ''xyz_array'') (Call (Attr (Name ''waterline_funcs'') ''contours_to_arrays'') [Name ''contour_gdf'',
         Str ''tide_m'']),
      Assign (Name ''intertidal_dem'') (Call (Attr (Name ''waterline_funcs'') ''interpolate_2d'') [Kw ''ds'' (Name ''landsat_intervals''),
         Kw ''x_coords'' (Subscript (Name ''xyz_array'') (Tuple [Slice [], Num ''0''])),
         Kw ''y_coords'' (Subscript (Name ''xyz_array'') (Tuple [Slice [], Num ''1''])),
         Kw ''z_coords'' (Subscript (Name ''xyz_array'') (Tuple [Slice [], Num ''2'']))]),
      ExprStmt (Call (Attr (Name ''intertidal_dem'') ''plot'') [Kw ''cmap'' (Str ''viridis''),
         Kw ''size'' (Num ''8''), Kw ''robust'' (Const ''True'')]),
      ExprStmt (Call (Attr (Name ''plt'') ''show'') [])]"

definition intertidal_elevation_cell_13 :: cell where
  "intertidal_elevation_cell_13 =
     [Assign (Name ''above_lowest'') (BinOp ''<'' (Attr (Call (Attr (Name ''landsat_intervals'') ''isel'') [Kw ''tide_interval'' (Num ''0'')]) ''water_index'') (Num ''0'')),
      Assign (Name ''below_highest'') (BinOp ''>'' (Attr (Call (Attr (Name ''landsat_intervals'') ''isel'') [Kw ''tide_interval'' (Num ''-1'')]) ''water_index'') (Num ''0'')),
      Assign (Name ''intertidal_dem_clean'') (Call (Attr (Name ''intertidal_dem'') ''where'') [BinOp ''&'' (Name ''above_lowest'') (Name ''below_highest'')]),
      ExprStmt (Call (Attr (Name ''intertidal_dem_clean'') ''plot'') [Kw ''cmap'' (Str ''viridis''),
         Kw ''size'' (Num ''8''), Kw ''robust'' (Const ''True'')]),
      ExprStmt (Call (Attr (Name ''plt'') ''show'') [])]"

definition intertidal_elevation :: notebook where
  "intertidal_elevation =
     [intertidal_elevation_cell_0, intertidal_elevation_cell_1, intertidal_elevation_cell_2,
      intertidal_elevation_cell_3, intertidal_elevation_cell_4,
      intertidal_elevation_cell_5, intertidal_elevation_cell_6,
      intertidal_elevation_cell_7, intertidal_elevation_cell_8,
      intertidal_elevation_cell_9, intertidal_elevation_cell_10,
      intertidal_elevation_cell_11, intertidal_elevation_cell_12,
      intertidal_elevation_cell_13]"

text \<open>Do it yourself (the tutorial).\<close>

definition do_it_yourself_cell_0 :: cell where
  "do_it_yourself_cell_0 =
     [Incomplete ''coordinates'']"

definition do_it_yourself_cell_1 :: cell where
  "do_it_yourself_cell_1 =
     [Incomplete ''box_size'',
      Assign (Name ''centre_x'') (Subscript (Name ''coordinates'') (Num ''1'')),
      Assign (Name ''centre_y'') (Subscript (Name ''coordinates'') (Num ''0'')),
      Assign (Name ''bounding_box_x'') (Tuple [BinOp ''-'' (Name ''centre_x'') (Name ''box_size''),
         BinOp ''+'' (Name ''centre_x'') (Name ''box_size'')]),
      Assign (Name ''bounding_box_y'') (Tuple [BinOp ''-'' (Name ''centre_y'') (Name ''box_size''),
         BinOp ''+'' (Name ''centre_y'') (Name ''box_size'')])]"

definition do_it_yourself_cell_2 :: cell where
  "do_it_yourself_cell_2 =
     [Magic ''%matplotlib inline'',
      Import ''datacube'' ''datacube'',
      Import ''warnings'' ''warnings'',
      ExprStmt (Call (Attr (Name ''warnings'') ''filterwarnings'') [Str ''ignore'']),
      Assign (Name ''dc'') (Call (Attr (Name ''datacube'') ''Datacube'') [Kw ''app'' (Str ''do-it-yourself'')]),
      Assign (Name ''dataset'') (Call (Attr (Name ''dc'') ''load'') [Kw ''product'' (Str ''s2a_nrt_granule''),
         Kw ''x'' (Name ''bounding_box_x''), Kw ''y'' (Name ''bounding_box_y''),
         Kw ''resolution'' (Tuple [Num ''-10'', Num ''10'']),
         Kw ''output_crs'' (Str ''epsg:3577''), Kw ''measurements'' (Tuple [Str ''nbar_red'',
         Str ''nbar_green'', Str ''nbar_blue'', Str ''nbar_nir_1''])])]"

definition do_it_yourself_cell_3 :: cell where
  "do_it_yourself_cell_3 =
     [ExprStmt (Call (Name ''print'') [Name ''dataset''])]"

definition do_it_yourself_cell_4 :: cell where
  "do_it_yourself_cell_4 =
     [Import ''matplotlib.pyplot'' ''plt'',
      ImportFrom ''utils.dea_plotting'' ''rgb'' ''rgb'',
      Incomplete ''time_step'',
      Incomplete ''bands'',
      ExprStmt (Call (Name ''rgb'') [Name ''dataset'', Kw ''bands'' (Name ''bands''),
         Kw ''index'' (Name ''time_step''), Kw ''size'' (Num ''10'')]),
      Assign (Name ''time_string'') (Subscript (Call (Attr (Call (Name ''str'') [Attr (Call (Attr (Attr (Name ''dataset'') ''time'') ''isel'') [Kw ''time'' (Name ''time_step'')]) ''values'']) ''split'') [Str ''.'']) (Num ''0'')),
      Assign (Name ''ax'') (Call (Attr (Name ''plt'') ''gca'') []),
      ExprStmt (Call (Attr (Name ''ax'') ''set_title'') [FString [Str ''Timestep '',
         Name ''time_string''], Kw ''fontweight'' (Str ''bold''), Kw ''fontsize'' (Num ''16'')]),
      ExprStmt (Call (Attr (Name ''ax'') ''set_xlabel'') [Str ''Easting'',
         Kw ''fontweight'' (Str ''bold'')]),
      ExprStmt (Call (Attr (Name ''ax'') ''set_ylabel'') [Str ''Northing'',
         Kw ''fontweight'' (Str ''bold'')]),
      ExprStmt (Call (Attr (Name ''plt'') ''show'') [])]"

definition do_it_yourself_cell_5 :: cell where
  "do_it_yourself_cell_5 =
     [ImportFrom ''datacube'' ''helpers'' ''helpers'',
      Assign (Name ''filename'') (Str ''example.tiff''),
      ExprStmt (Call (Attr (Name ''helpers'') ''write_geotiff'') [Kw ''dataset'' (Call (Attr (Name ''dataset'') ''isel'') [Kw ''time'' (Name ''time_step'')]),
         Kw ''filename'' (Name ''filename'')])]"

definition do_it_yourself_cell_6 :: cell where
  "do_it_yourself_cell_6 =
     [Incomplete ''ndvi'',
      ExprStmt (Call (Attr (Name ''plt'') ''figure'') [Kw ''figsize'' (Tuple [Num ''10'', Num ''10''])]),
      ExprStmt (Call (Attr (Call (Attr (Name ''ndvi'') ''isel'') [Kw ''time'' (Name ''time_step'')]) ''plot'') []),
      ExprStmt (Call (Attr (Name ''plt'') ''show'') [])]"

definition do_it_yourself :: notebook where
  "do_it_yourself =
     [do_it_yourself_cell_0, do_it_yourself_cell_1, do_it_yourself_cell_2,
      do_it_yourself_cell_3, do_it_yourself_cell_4, do_it_yourself_cell_5,
      do_it_yourself_cell_6]"

text \<open>Cumulative mass residual rainfall (CumulativeMassResidualRainfall.ipynb).\<close>

definition rainfall_cell_0 :: cell where
  "rainfall_cell_0 =
     [Magic ''%load_ext autoreload'',
      Magic ''%autoreload 2'',
      Import ''os.path'' ''os'',
      Import ''numpy'' ''np'',
      Import ''sys'' ''sys'',
      Import ''xarray'' ''xr'',
      ImportFrom ''datetime'' ''datetime'' ''datetime'',
      Import ''matplotlib.pyplot'' ''plt'',
      Import ''datacube'' ''datacube'',
      ImportFrom ''datacube.utils'' ''geometry'' ''geometry'',
      ImportFrom ''datacube.storage.storage'' ''write_dataset_to_netcdf'' ''write_dataset_to_netcdf'',
      ImportFrom ''datacube.helpers'' ''write_geotiff'' ''write_geotiff'',
      ExprStmt (Call (Attr (Attr (Name ''sys'') ''path'') ''append'') [Call (Attr (Attr (Name ''os'') ''path'') ''expanduser'') [Str ''~/dea-notebooks/10_Scripts/'']]),
      ImportFrom ''RainfallTools'' ''load_rainfall'' ''load_rainfall'']"

definition rainfall_cell_1 :: cell where
  "rainfall_cell_1 =
     [Assign (Name ''query'') (DictE [Str ''lat'', Str ''lon'', Str ''time''] [Tuple [Num ''-35.25'',
         Num ''-35.35''], Tuple [Num ''149.05'', Num ''149.17''], Tuple [Str ''2010-01-01'',
         Str ''2013-03-31'']])]"

definition rainfall_cell_2 :: cell where
  "rainfall_cell_2 =
     [Assign (Name ''dc'') (Call (Attr (Name ''datacube'') ''Datacube'') [Kw ''app'' (Str ''dc-BOMrainfall'')]),
      Assign (Name ''rainfall'') (Call (Name ''load_rainfall'') [Name ''query''])]"

definition rainfall_cell_3 :: cell where
  "rainfall_cell_3 =
     [Assign (Name ''rainfall_bydayofyear'') (Call (Attr (Name ''rainfall'') ''groupby'') [Str ''time.dayofyear''])]"

definition rainfall_cell_4 :: cell where
  "rainfall_cell_4 =
     [Assign (Name ''rainfall_dayofyear_mean'') (Call (Attr (Call (Attr (Name ''rainfall'') ''groupby'') [Str ''time.dayofyear'']) ''mean'') [Kw ''dim'' (Str ''time'')])]"

definition rainfall_cell_5 :: cell where
  "rainfall_cell_5 =
     [Assign (Name ''cumulative_mean_rainfall'') (Call (Attr (Subscript (Attr (Name ''rainfall_dayofyear_mean'') ''rainfall'') (BinOp ''-'' (Attr (Attr (Attr (Name ''cumulative_rainfall'') ''time'') ''dt'') ''dayofyear'') (Num ''1''))) ''cumsum'') [Kw ''dim'' (Str ''time''),
         Kw ''keep_attrs'' (Const ''True'')])]"

definition rainfall_cell_6 :: cell where
  "rainfall_cell_6 =
     [Assign (Name ''mass_residual'') (BinOp ''-'' (Attr (Name ''cumulative_rainfall'') ''rainfall'') (Name ''cumulative_mean_rainfall''))]"

definition rainfall_cell_7 :: cell where
  "rainfall_cell_7 =
     [ExprStmt (Call (Attr (Call (Attr (Name ''mass_residual'') ''mean'') [Kw ''dim'' (Tuple [Str ''latitude'',
         Str ''longitude''])]) ''plot'') [])]"

definition rainfall_cell_8 :: cell where
  "rainfall_cell_8 =
     [ExprStmt (Call (Attr (Call (Attr (Name ''mass_residual'') ''isel'') [Kw ''time'' (Num ''50'')]) ''plot'') [])]"

definition rainfall_cell_9 :: cell where
  "rainfall_cell_9 =
     []"

definition rainfall :: notebook where
  "rainfall =
     [rainfall_cell_0, rainfall_cell_1, rainfall_cell_2, rainfall_cell_3, rainfall_cell_4,
      rainfall_cell_5, rainfall_cell_6, rainfall_cell_7, rainfall_cell_8, rainfall_cell_9]"


text \<open>The nine notebooks of the sources.\<close>

definition all_notebooks :: "notebook list" where
  "all_notebooks = [site_matching, dask_average_colour, tiled_segmentation, mining, forestry,
                    coastal_erosion, intertidal_elevation, do_it_yourself, rainfall]"

definition notebook_blanks :: "notebook \<Rightarrow> string list" where
  "notebook_blanks nb = concat (map (\<lambda>c. concat (map blanks c)) nb)"

text \<open>
  The analyst's edit: a blank \<^verbatim>\<open>n = \<close> becomes \<^verbatim>\<open>n = e\<close> where a right-hand side
  \<open>e\<close> is supplied for \<open>n\<close>, and stays blank otherwise.
\<close>

fun fill_stmt :: "(string \<rightharpoonup> expr) \<Rightarrow> stmt \<Rightarrow> stmt" where
  "fill_stmt f (Incomplete n) = (case f n of None \<Rightarrow> Incomplete n | Some e \<Rightarrow> Assign (Name n) e)"
| "fill_stmt f (FunDef g params body) = FunDef g params (map (fill_stmt f) body)"
| "fill_stmt f (For targets iter body) = For targets iter (map (fill_stmt f) body)"
| "fill_stmt f (IfStmt cond body orelse) =
     IfStmt cond (map (fill_stmt f) body) (map (fill_stmt f) orelse)"
| "fill_stmt f s = s"

definition fill :: "(string \<rightharpoonup> expr) \<Rightarrow> notebook \<Rightarrow> notebook" where
  "fill f nb = map (map (fill_stmt f)) nb"

definition runs_clean :: "notebook \<Rightarrow> bool" where
  "runs_clean nb = (case run_notebook nb of Inl _ \<Rightarrow> False | Inr _ \<Rightarrow> True)"

text \<open>
  The right-hand sides the tutorial suggests: one of its example coordinate pairs,
  \<^verbatim>\<open>box_size=0.05\<close>, the first time step, the true colour bands, and the NDVI formula.
\<close>

definition suggested :: "string \<rightharpoonup> expr" where
  "suggested =
     [''coordinates'' \<mapsto> ListE [Num ''-14.642744'', Num ''144.899747''],
      ''box_size'' \<mapsto> Num ''0.05'',
      ''time_step'' \<mapsto> Num ''0'',
      ''bands'' \<mapsto> ListE [Str ''nbar_red'', Str ''nbar_green'', Str ''nbar_blue''],
      ''ndvi'' \<mapsto>
        BinOp ''/''
          (BinOp ''-'' (Attr (Name ''dataset'') ''nbar_nir_1'') (Attr (Name ''dataset'') ''nbar_red''))
          (BinOp ''+'' (Attr (Name ''dataset'') ''nbar_nir_1'') (Attr (Name ''dataset'') ''nbar_red''))]"

section \<open>Spectral indices stay in range\<close>

lemma band_norm_pixel:
  assumes "length A = length B" and "i < length A"
  shows "band_div (band_sub A B) (band_add A B) ! i
         = fl_div (fl_sub (A ! i) (B ! i)) (fl_add (A ! i) (B ! i))"
  using assms by (simp add: band_div_def band_sub_def band_add_def)

lemma norm_diff_value:
  assumes "0 \<le> a" and "0 \<le> b" and "a \<noteq> 0 \<or> b \<noteq> 0"
  shows "fl_div (fl_sub (Fin a) (Fin b)) (fl_add (Fin a) (Fin b)) = Fin ((a - b) / (a + b))"
proof -
  from assms have "a + b \<noteq> 0" by linarith
  then show ?thesis by (simp add: fl_sub_def)
qed

lemma norm_diff_bounds:
  fixes a b :: real
  assumes "0 \<le> a" and "0 \<le> b" and "a \<noteq> 0 \<or> b \<noteq> 0"
  shows "- 1 \<le> (a - b) / (a + b)" and "(a - b) / (a + b) \<le> 1"
proof -
  from assms have pos: "0 < a + b" by linarith
  have "- (a + b) \<le> a - b" using assms by linarith
  then show "- 1 \<le> (a - b) / (a + b)"
    using pos by (simp add: pos_le_divide_eq)
  have "a - b \<le> a + b" using assms by linarith
  then show "(a - b) / (a + b) \<le> 1"
    using pos by (simp add: pos_divide_le_eq)
qed

text \<open>
  Claim C5. Each index (MNDWI, NDWI, NDCI, NDVI) is, at every pixel, the ratio
  \<open>(A - B) / (A + B)\<close> of its two bands; where both band values are finite and
  nonnegative and not both zero, the index is a finite number between \<open>-1\<close> and \<open>1\<close>.
\<close>

theorem spectral_index_range:
  assumes "length A = length B" and "i < length A"
    and "A ! i = Fin a" and "B ! i = Fin b"
    and "0 \<le> a" and "0 \<le> b" and "a \<noteq> 0 \<or> b \<noteq> 0"
  shows "water_index_mndwi A B ! i = Fin ((a - b) / (a + b))
       \<and> water_index_ndwi A B ! i = Fin ((a - b) / (a + b))
       \<and> ndci (A ! i) (B ! i) = Fin ((a - b) / (a + b))
       \<and> calculate_indices_NDVI A B ! i = Fin ((a - b) / (a + b))
       \<and> - 1 \<le> (a - b) / (a + b) \<and> (a - b) / (a + b) \<le> 1"
proof -
  have v: "fl_div (fl_sub (A ! i) (B ! i)) (fl_add (A ! i) (B ! i)) = Fin ((a - b) / (a + b))"
    using assms(3-7) by (simp only: norm_diff_value)
  have p: "band_div (band_sub A B) (band_add A B) ! i = Fin ((a - b) / (a + b))"
    using band_norm_pixel [OF assms(1,2)] v by simp
  show ?thesis
    using p v norm_diff_bounds [OF assms(5-7)]
    by (simp add: water_index_mndwi_def water_index_ndwi_def ndci_def
        calculate_indices_NDVI_def)
qed

theorem spectral_index_range_witness:
  "water_index_mndwi [Fin 3, Fin 0] [Fin 1, Fin 4] ! 0 = Fin (1 / 2)
   \<and> water_index_ndwi [Fin 3, Fin 0] [Fin 1, Fin 4] ! 0 = Fin (1 / 2)
   \<and> ndci (Fin 3) (Fin 1) = Fin (1 / 2)
   \<and> calculate_indices_NDVI [Fin 3, Fin 0] [Fin 1, Fin 4] ! 0 = Fin (1 / 2)"
  using spectral_index_range [of "[Fin 3, Fin 0]" "[Fin 1, Fin 4]" 0 3 1]
  by simp

section \<open>Forestry: the samples partition the time series\<close>

lemma sel_time_filter:
  "sel_time (map f xs) xs = filter f xs"
  by (induction xs) (simp_all add: sel_time_def)

lemma baseline_sample_filter:
  "baseline_sample ds tb = filter (\<lambda>x. fst x \<le> tb) ds"
  by (simp add: baseline_sample_def baseline_mask_def sel_time_filter comp_def)

lemma postbaseline_sample_filter:
  "postbaseline_sample ds tb = filter (\<lambda>x. \<not> fst x \<le> tb) ds"
  by (simp add: postbaseline_sample_def postbaseline_mask_def sel_time_filter comp_def not_le)

text \<open>
  Claim C8. For any \<open>time_baseline\<close> the two masks are complementary at every time
  step, so each time step is selected by exactly one of them; together the baseline and
  postbaseline samples hold every time step of the dataset once, and none is in both.
\<close>

theorem samples_partition:
  "postbaseline_mask ds_s2 time_baseline = map Not (baseline_mask ds_s2 time_baseline)
   \<and> length (baseline_mask ds_s2 time_baseline) = length ds_s2
   \<and> mset (baseline_sample ds_s2 time_baseline) + mset (postbaseline_sample ds_s2 time_baseline)
       = mset ds_s2
   \<and> length (baseline_sample ds_s2 time_baseline)
       + length (postbaseline_sample ds_s2 time_baseline) = length ds_s2
   \<and> set (baseline_sample ds_s2 time_baseline) \<inter> set (postbaseline_sample ds_s2 time_baseline)
       = {}"
proof -
  have masks: "postbaseline_mask ds_s2 time_baseline = map Not (baseline_mask ds_s2 time_baseline)"
    by (simp add: postbaseline_mask_def baseline_mask_def not_le)
  have len: "length (baseline_mask ds_s2 time_baseline) = length ds_s2"
    by (simp add: baseline_mask_def)
  have un: "mset (baseline_sample ds_s2 time_baseline)
      + mset (postbaseline_sample ds_s2 time_baseline) = mset ds_s2"
    by (simp add: baseline_sample_filter postbaseline_sample_filter)
  have cnt: "length (baseline_sample ds_s2 time_baseline)
      + length (postbaseline_sample ds_s2 time_baseline) = length ds_s2"
    by (simp add: baseline_sample_filter postbaseline_sample_filter sum_length_filter_compl)
  have dis: "set (baseline_sample ds_s2 time_baseline)
      \<inter> set (postbaseline_sample ds_s2 time_baseline) = {}"
    by (auto simp add: baseline_sample_filter postbaseline_sample_filter)
  from masks len un cnt dis show ?thesis by simp
qed

section \<open>The average colour is a colour\<close>

lemma to_hex_length:
  assumes "n < 256"
  shows "length (to_hex n) = (if n < 16 then 1 else 2)"
proof (cases "n < 16")
  case True
  then show ?thesis by (simp add: to_hex.simps [of n])
next
  case False
  with assms have "n div 16 < 16" by simp
  then have "to_hex (n div 16) = [hex_digit (n div 16)]"
    by (simp add: to_hex.simps [of "n div 16"])
  with False show ?thesis by (simp add: to_hex.simps [of n])
qed

lemma format_02x_length:
  assumes "0 \<le> n" and "n \<le> 255"
  shows "length (format_02x n) = 2"
proof -
  from assms have "nat n < 256" by simp
  from to_hex_length [OF this] assms show ?thesis
    by (simp add: format_02x_def zfill_def)
qed

lemma rgb_value_range:
  assumes "scaled_ds band = Some (Fin x)"
  shows "rgb_value scaled_ds band = Inr \<lfloor>min (max x 0) 1 * 255\<rfloor>
       \<and> 0 \<le> \<lfloor>min (max x 0) 1 * 255\<rfloor> \<and> \<lfloor>min (max x 0) 1 * 255\<rfloor> \<le> 255"
proof -
  let ?c = "min (max x 0) 1"
  have c: "0 \<le> ?c" "?c \<le> 1" by simp_all
  then have s: "0 \<le> ?c * 255" "?c * 255 \<le> 255" by simp_all
  have "rgb_value scaled_ds band = Inr \<lfloor>?c * 255\<rfloor>"
    using assms s(1) by (simp add: rgb_value_def)
  moreover have "0 \<le> \<lfloor>?c * 255\<rfloor>" using s(1) by simp
  moreover have "\<lfloor>?c * 255\<rfloor> \<le> 255" using s(2) by (simp add: floor_le_iff)
  ultimately show ?thesis by simp
qed

text \<open>
  Claim C9. For finite \<open>red\<close>, \<open>green\<close> and \<open>blue\<close> averages, \<open>get_rgb\<close> returns
  (it raises nothing) three integers, each the band clipped to \<open>[0, 1]\<close>, scaled by 255
  and truncated, hence between 0 and 255, and a hex string of seven characters that starts
  with \<open>#\<close>.
\<close>

theorem get_rgb_range:
  assumes "scaled_ds ''red'' = Some (Fin r)"
    and "scaled_ds ''green'' = Some (Fin g)"
    and "scaled_ds ''blue'' = Some (Fin b)"
  shows "\<exists>red green blue hex_value.
           get_rgb scaled_ds = Inr ([red, green, blue], hex_value)
         \<and> red = \<lfloor>min (max r 0) 1 * 255\<rfloor>
         \<and> green = \<lfloor>min (max g 0) 1 * 255\<rfloor>
         \<and> blue = \<lfloor>min (max b 0) 1 * 255\<rfloor>
         \<and> 0 \<le> red \<and> red \<le> 255 \<and> 0 \<le> green \<and> green \<le> 255 \<and> 0 \<le> blue \<and> blue \<le> 255
         \<and> length hex_value = 7 \<and> hd hex_value = CHR ''#''"
proof -
  define red where "red = \<lfloor>min (max r 0) 1 * 255\<rfloor>"
  define green where "green = \<lfloor>min (max g 0) 1 * 255\<rfloor>"
  define blue where "blue = \<lfloor>min (max b 0) 1 * 255\<rfloor>"
  define hex_value where
    "hex_value = CHR ''#'' # format_02x red @ format_02x green @ format_02x blue"
  have R: "rgb_value scaled_ds ''red'' = Inr red" "0 \<le> red" "red \<le> 255"
    using rgb_value_range [of scaled_ds "''red''" r, OF assms(1)]
    by (simp_all only: red_def)
  have G: "rgb_value scaled_ds ''green'' = Inr green" "0 \<le> green" "green \<le> 255"
    using rgb_value_range [of scaled_ds "''green''" g, OF assms(2)]
    by (simp_all only: green_def)
  have B: "rgb_value scaled_ds ''blue'' = Inr blue" "0 \<le> blue" "blue \<le> 255"
    using rgb_value_range [of scaled_ds "''blue''" b, OF assms(3)]
    by (simp_all only: blue_def)
  have run: "get_rgb scaled_ds = Inr ([red, green, blue], hex_value)"
    by (simp add: get_rgb_def R(1) G(1) B(1) hex_value_def)
  have len: "length hex_value = 7"
    by (simp add: hex_value_def format_02x_length R(2,3) G(2,3) B(2,3))
  have hd: "hd hex_value = CHR ''#''"
    by (simp add: hex_value_def)
  from run len hd R(2,3) G(2,3) B(2,3) red_def green_def blue_def
  show ?thesis by blast
qed

theorem get_rgb_range_witness:
  "\<exists>hex_value.
     get_rgb [''red'' \<mapsto> Fin (1 / 2), ''green'' \<mapsto> Fin 2, ''blue'' \<mapsto> Fin (- 1)]
       = Inr ([127, 255, 0], hex_value)
     \<and> length hex_value = 7 \<and> hd hex_value = CHR ''#''"
  using get_rgb_range [of "[''red'' \<mapsto> Fin (1 / 2), ''green'' \<mapsto> Fin 2, ''blue'' \<mapsto> Fin (- 1)]"
      "1 / 2" 2 "- 1"]
  by simp

section \<open>Site matching: the rows and the window\<close>

lemma closer_cases:
  "closer target a b = a \<or> closer target a b = b"
  by (simp add: closer_def)

lemma closer_le:
  "\<bar>time (closer target a b) - target\<bar> \<le> \<bar>time a - target\<bar>"
  "\<bar>time (closer target a b) - target\<bar> \<le> \<bar>time b - target\<bar>"
  by (simp_all add: closer_def)

lemma foldl_closer_mem:
  "foldl (closer target) x xs \<in> set (x # xs)"
proof (induction xs arbitrary: x)
  case Nil
  then show ?case by simp
next
  case (Cons y ys)
  have "foldl (closer target) (closer target x y) ys \<in> set (closer target x y # ys)"
    by (rule Cons.IH)
  then show ?case using closer_cases [of target x y] by auto
qed

lemma foldl_closer_min:
  "u \<in> set (x # xs) \<Longrightarrow>
   \<bar>time (foldl (closer target) x xs) - target\<bar> \<le> \<bar>time u - target\<bar>"
proof (induction xs arbitrary: x u)
  case Nil
  then show ?case by simp
next
  case (Cons y ys)
  let ?c = "closer target x y"
  have step: "\<And>v. v \<in> set (?c # ys) \<Longrightarrow>
      \<bar>time (foldl (closer target) ?c ys) - target\<bar> \<le> \<bar>time v - target\<bar>"
    by (rule Cons.IH)
  from Cons.prems consider "u = x" | "u = y" | "u \<in> set ys" by auto
  then show ?case
  proof cases
    case 1
    have "\<bar>time (foldl (closer target) ?c ys) - target\<bar> \<le> \<bar>time ?c - target\<bar>"
      by (rule step) simp
    also have "\<dots> \<le> \<bar>time x - target\<bar>" by (rule closer_le)
    finally show ?thesis using 1 by simp
  next
    case 2
    have "\<bar>time (foldl (closer target) ?c ys) - target\<bar> \<le> \<bar>time ?c - target\<bar>"
      by (rule step) simp
    also have "\<dots> \<le> \<bar>time y - target\<bar>" by (rule closer_le)
    finally show ?thesis using 2 by simp
  next
    case 3
    then have "\<bar>time (foldl (closer target) ?c ys) - target\<bar> \<le> \<bar>time u - target\<bar>"
      by (intro step) simp
    then show ?thesis by simp
  qed
qed

lemma sel_nearest_Inr:
  assumes "sel_nearest ds target = Inr t"
  shows "t \<in> set ds" and "\<And>u. u \<in> set ds \<Longrightarrow> \<bar>target - time t\<bar> \<le> \<bar>target - time u\<bar>"
proof -
  from assms obtain x xs where ds: "ds = x # xs" and t: "t = foldl (closer target) x xs"
    by (auto simp add: sel_nearest_def split: list.splits if_splits)
  show "t \<in> set ds" unfolding ds t by (rule foldl_closer_mem)
  fix u assume "u \<in> set ds"
  then have "\<bar>time t - target\<bar> \<le> \<bar>time u - target\<bar>"
    unfolding ds t by (rule foldl_closer_min)
  then show "\<bar>target - time t\<bar> \<le> \<bar>target - time u\<bar>"
    by (simp add: abs_minus_commute)
qed

lemma ns_per_day_pos: "0 < ns_per_day"
  by (simp add: ns_per_day_def)

lemma timedelta_days_le:
  "timedelta_days d \<le> w \<longleftrightarrow> d < (w + 1) * ns_per_day"
proof -
  let ?q = "d div ns_per_day"
  have dm: "d = ns_per_day * ?q + d mod ns_per_day" by simp
  have r: "0 \<le> d mod ns_per_day" "d mod ns_per_day < ns_per_day"
    using ns_per_day_pos by simp_all
  have "?q \<le> w \<longleftrightarrow> d < (w + 1) * ns_per_day"
  proof
    assume "?q \<le> w"
    then have "ns_per_day * ?q \<le> ns_per_day * w"
      using ns_per_day_pos by (simp add: mult_left_mono)
    with dm r have "d < ns_per_day * w + ns_per_day" by linarith
    then show "d < (w + 1) * ns_per_day" by (simp add: algebra_simps)
  next
    assume less: "d < (w + 1) * ns_per_day"
    show "?q \<le> w"
    proof (rule ccontr)
      assume "\<not> ?q \<le> w"
      then have "w + 1 \<le> ?q" by simp
      then have "ns_per_day * (w + 1) \<le> ns_per_day * ?q"
        using ns_per_day_pos by (simp add: mult_left_mono)
      with dm r have "ns_per_day * (w + 1) \<le> d" by linarith
      with less show False by (simp add: algebra_simps)
    qed
  qed
  then show ?thesis by (simp add: timedelta_days_def)
qed

lemma timedelta_days_nonneg:
  "0 \<le> d \<Longrightarrow> 0 \<le> timedelta_days d"
  using ns_per_day_pos by (simp add: timedelta_days_def pos_imp_zdiv_nonneg_iff)

lemma isnan_py_round4: "isnan (py_round4 v) = isnan v"
  by (cases v) simp_all

lemma equal_lengths_append_match:
  "equal_lengths acc \<Longrightarrow> equal_lengths (append_match acc n d v c r e t)"
  by (simp add: equal_lengths_def append_match_def)

lemma rows_of_append_match:
  assumes "equal_lengths acc"
  shows "rows_of (append_match acc n d v c r e t)
       = rows_of acc @ [\<lparr>col_SiteName = n, col_ObservationDate = d, col_TimeDelta = t,
                          col_ObservationValue = v, col_Red = r, col_RedEdge = e,
                          col_NDCI = py_round4 c\<rparr>]"
  using assms by (simp add: equal_lengths_def rows_of_def append_match_def)

lemma length_rows_of:
  "equal_lengths acc \<Longrightarrow> length (rows_of acc) = length (site_names acc)"
  by (simp add: equal_lengths_def rows_of_def)

lemma match_date_rows_ok:
  assumes inv: "rows_ok load_ard obs_window locations acc"
    and s: "s \<in> set locations"
    and run: "match_date strptime obs_window (SiteName s) (load_ard s) site_values acc cd = Inr acc'"
  shows "rows_ok load_ard obs_window locations acc'"
proof -
  obtain cnt date_string where cd: "cd = (cnt, date_string)" by (cases cd)
  from run cd obtain target where tg: "strptime date_string = Some target"
    by (auto simp add: match_date_def split: option.splits)
  from run cd tg obtain t where nt: "sel_nearest (load_ard s) target = Inr t"
    by (auto simp add: match_date_def split: sum.splits)
  let ?gap = "\<bar>target - time t\<bar>"
  let ?v = "ndci (nbart_red_edge_1 t) (nbart_red t)"
  let ?new = "append_match acc (SiteName s) target (site_values ! cnt) ?v
                (nbart_red t) (nbart_red_edge_1 t) (timedelta_days ?gap)"
  from run cd tg nt have alt: "acc' = acc \<or>
      (acc' = ?new \<and> timedelta_days ?gap \<le> obs_window \<and> \<not> isnan ?v
        \<and> \<not> isnan (site_values ! cnt))"
    by (auto simp add: match_date_def Let_def split: if_splits)
  show ?thesis
  proof (cases "acc' = acc")
    case True
    with inv show ?thesis by simp
  next
    case False
    with alt have new: "acc' = ?new" and win: "timedelta_days ?gap \<le> obs_window"
      and nv: "\<not> isnan ?v" and ns: "\<not> isnan (site_values ! cnt)" by auto
    from inv have eq: "equal_lengths acc"
      and old: "list_all (row_ok load_ard obs_window locations) (rows_of acc)"
      by (simp_all add: rows_ok_def)
    let ?row = "\<lparr>col_SiteName = SiteName s, col_ObservationDate = target,
                 col_TimeDelta = timedelta_days ?gap,
                 col_ObservationValue = site_values ! cnt, col_Red = nbart_red t,
                 col_RedEdge = nbart_red_edge_1 t, col_NDCI = py_round4 ?v\<rparr>"
    have mem: "t \<in> set (load_ard s)" by (rule sel_nearest_Inr(1) [OF nt])
    have near: "\<forall>u \<in> set (load_ard s). ?gap \<le> \<bar>target - time u\<bar>"
      using sel_nearest_Inr(2) [OF nt] by blast
    have gap: "?gap < (obs_window + 1) * ns_per_day"
      using win by (simp only: timedelta_days_le)
    have d0: "0 \<le> timedelta_days ?gap" by (rule timedelta_days_nonneg) simp
    have "row_ok load_ard obs_window locations ?row"
      unfolding row_ok_def
      using s mem near gap d0 win nv ns by (auto simp add: isnan_py_round4)
    moreover have "rows_of acc' = rows_of acc @ [?row]"
      unfolding new by (rule rows_of_append_match [OF eq])
    moreover have "equal_lengths acc'"
      unfolding new by (rule equal_lengths_append_match [OF eq])
    ultimately show ?thesis using old by (simp add: rows_ok_def)
  qed
qed

lemma dates_loop_rows_ok:
  assumes "rows_ok load_ard obs_window locations acc"
    and "s \<in> set locations"
    and "dates_loop strptime obs_window (SiteName s) (load_ard s) site_values acc cds = Inr acc'"
  shows "rows_ok load_ard obs_window locations acc'"
  using assms
proof (induction cds arbitrary: acc)
  case Nil
  then show ?case by simp
next
  case (Cons cd cds)
  from Cons.prems(3) obtain mid where
    m1: "match_date strptime obs_window (SiteName s) (load_ard s) site_values acc cd = Inr mid"
    and m2: "dates_loop strptime obs_window (SiteName s) (load_ard s) site_values mid cds = Inr acc'"
    by (auto split: sum.splits)
  have "rows_ok load_ard obs_window locations mid"
    by (rule match_date_rows_ok [OF Cons.prems(1) Cons.prems(2) m1])
  then show ?case using Cons.prems(2) m2 by (rule Cons.IH)
qed

lemma match_site_rows_ok:
  assumes "rows_ok load_ard obs_window locations acc"
    and "s \<in> set locations"
    and "match_site strptime load_ard obs_window observations acc s = Inr acc'"
  shows "rows_ok load_ard obs_window locations acc'"
proof -
  from assms(3) obtain site_values where
    "dates_loop strptime obs_window (SiteName s) (load_ard s) site_values acc
       (enumerate 0 (Date observations)) = Inr acc'"
    by (auto simp add: match_site_def split: sum.splits)
  with assms(1,2) show ?thesis by (rule dates_loop_rows_ok)
qed

lemma sites_loop_rows_ok:
  assumes "rows_ok load_ard obs_window locations acc"
    and "set ss \<subseteq> set locations"
    and "sites_loop strptime load_ard obs_window observations acc ss = Inr acc'"
  shows "rows_ok load_ard obs_window locations acc'"
  using assms
proof (induction ss arbitrary: acc)
  case Nil
  then show ?case by simp
next
  case (Cons s ss)
  from Cons.prems(3) obtain mid where
    m1: "match_site strptime load_ard obs_window observations acc s = Inr mid"
    and m2: "sites_loop strptime load_ard obs_window observations mid ss = Inr acc'"
    by (auto split: sum.splits)
  from Cons.prems(2) have s: "s \<in> set locations" and ss: "set ss \<subseteq> set locations" by auto
  have "rows_ok load_ard obs_window locations mid"
    by (rule match_site_rows_ok [OF Cons.prems(1) s m1])
  then show ?case using ss m2 by (rule Cons.IH)
qed

lemma rows_ok_no_matches: "rows_ok load_ard obs_window locations no_matches"
  by (simp add: rows_ok_def equal_lengths_def rows_of_def no_matches_def)

text \<open>
  What holds of the loop. When it ends, the seven lists have one length, so the table is
  built, one row per match. Every row has a non-NaN NDCI and a non-NaN ground value, and
  pairs a ground observation with the time step of its site nearest to it, whose gap
  counts at most \<open>obs_window\<close> whole days (\<open>TimeDelta \<le> obs_window\<close>), that is, a gap
  below \<open>obs_window + 1\<close> days.
\<close>

lemma site_matching_rows:
  assumes "match_all strptime load_ard obs_window locations observations = Inr acc"
  shows "length (match_dates acc) = length (site_names acc)
       \<and> length (match_values acc) = length (site_names acc)
       \<and> length (ndci_values acc) = length (site_names acc)
       \<and> length (red_values acc) = length (site_names acc)
       \<and> length (rededge_values acc) = length (site_names acc)
       \<and> length (time_deltas acc) = length (site_names acc)
       \<and> (\<exists>rows. location_results acc = Inr rows
            \<and> length rows = length (site_names acc)
            \<and> list_all (row_ok load_ard obs_window locations) rows)"
proof -
  have "rows_ok load_ard obs_window locations acc"
    using rows_ok_no_matches _ assms [unfolded match_all_def]
    by (rule sites_loop_rows_ok) simp
  then have eq: "equal_lengths acc"
    and ok: "list_all (row_ok load_ard obs_window locations) (rows_of acc)"
    by (simp_all add: rows_ok_def)
  from eq have "location_results acc = Inr (rows_of acc)"
    by (simp add: location_results_def)
  with eq ok length_rows_of [OF eq] show ?thesis
    by (simp add: equal_lengths_def)
qed


lemmas match_eval =
  match_all_def match_site_def iloc_column_def match_date_def sel_nearest_def closer_def
  timedelta_days_def ns_per_day_def ndci_def fl_sub_def append_match_def no_matches_def
  round_half_even_def Let_def ex_strptime_def ex_site_def ex_observations_def

lemma site_matching_rows_example:
  "match_all ex_strptime (\<lambda>s. ex_near) 7 [ex_site] ex_observations
     = Inr \<lparr>red_values = [Fin 400], rededge_values = [Fin 600], ndci_values = [Fin (1 / 5)],
            time_deltas = [1], site_names = [''A''], match_values = [Fin 5],
            match_dates = [17906 * ns_per_day]\<rparr>
   \<and> (\<exists>rows. location_results \<lparr>red_values = [Fin 400], rededge_values = [Fin 600],
                 ndci_values = [Fin (1 / 5)], time_deltas = [1], site_names = [''A''],
                 match_values = [Fin 5], match_dates = [17906 * ns_per_day]\<rparr> = Inr rows
          \<and> length rows = 1
          \<and> list_all (row_ok (\<lambda>s. ex_near) 7 [ex_site]) rows)"
proof -
  have run: "match_all ex_strptime (\<lambda>s. ex_near) 7 [ex_site] ex_observations
     = Inr \<lparr>red_values = [Fin 400], rededge_values = [Fin 600], ndci_values = [Fin (1 / 5)],
            time_deltas = [1], site_names = [''A''], match_values = [Fin 5],
            match_dates = [17906 * ns_per_day]\<rparr>"
    by (simp add: match_eval ex_near_def)
  from site_matching_rows [OF run] run show ?thesis by simp
qed

text \<open>
  Claim C10 fails on the window. The notebook says of the loop that it returns no
  observation when the closest date is more than \<open>obs_window\<close> days out. With
  \<open>obs_window = 7\<close>, the loop matches an image from 2 January 2019, 00:47:11, to the
  ground observation of 10 January 2019 and records it with \<open>TimeDelta = 7\<close>: the image is
  eight calendar days, and 7 days, 23 hours, 12 minutes and 49 seconds, before the
  observation. The guard reads \<^verbatim>\<open>time_delta.days\<close>, the whole days of the gap.
\<close>

theorem site_matching_match_outside_window:
  "match_all ex_strptime (\<lambda>s. ex_late) 7 [ex_site] ex_observations
     = Inr \<lparr>red_values = [Fin 400], rededge_values = [Fin 600], ndci_values = [Fin (1 / 5)],
            time_deltas = [7], site_names = [''A''], match_values = [Fin 5],
            match_dates = [17906 * ns_per_day]\<rparr>
   \<and> map time ex_late = [17898 * ns_per_day + 2831 * 1000000000]
   \<and> map (\<lambda>t. time t div ns_per_day) ex_late = [17898]
   \<and> 7 * ns_per_day < \<bar>17906 * ns_per_day - (17898 * ns_per_day + 2831 * 1000000000)\<bar>
   \<and> \<bar>17906 * ns_per_day - (17898 * ns_per_day + 2831 * 1000000000)\<bar>
       = 7 * ns_per_day + (23 * 3600 + 12 * 60 + 49) * 1000000000"
  by (simp add: match_eval ex_late_def)

section \<open>Contours are traced at water index 0\<close>

lemma contour_extract_single:
  "length ds_array = length attribute_data \<Longrightarrow>
   contour_extract trace [z] ds_array attribute_data
     = map (\<lambda>(r, a). (z, a, trace z r)) (zip ds_array attribute_data)"
  by (simp add: contour_extract_def)

lemma contour_extract_calls:
  "map (\<lambda>c. (call_kw ''z_values'' c, call_kw ''ds_array'' c))
     (concat (map (calls_to ''utils.waterline_funcs.contour_extract'') all_notebooks))
   = [(Some (ListE [Num ''0'']), Some (Name ''landsat_summaries'')),
      (Some (ListE [Num ''0'']), Some (Attr (Name ''landsat_intervals'') ''water_index''))]"
  by code_simp

text \<open>
  Claim C6. The notebooks call \<open>contour_extract\<close> twice, both times with
  \<open>z_values=[0]\<close> and on the summary water-index raster; the coastal erosion notebook
  gets one line per time step and the intertidal notebook one per tidal interval, every
  one of them traced at level 0.
\<close>

theorem contours_at_zero:
  "map (\<lambda>c. (call_kw ''z_values'' c, call_kw ''ds_array'' c))
     (concat (map (calls_to ''utils.waterline_funcs.contour_extract'') all_notebooks))
   = [(Some (ListE [Num ''0'']), Some (Name ''landsat_summaries'')),
      (Some (ListE [Num ''0'']), Some (Attr (Name ''landsat_intervals'') ''water_index''))]
   \<and> coastal_waterlines trace landsat_summaries
     = map (\<lambda>(t, r). (0, take 10 t, trace 0 r)) landsat_summaries
   \<and> length (coastal_waterlines trace landsat_summaries) = length landsat_summaries
   \<and> intertidal_depth_contours trace landsat_intervals
     = map (\<lambda>(h, r). (0, h, trace 0 r)) landsat_intervals
   \<and> length (intertidal_depth_contours trace landsat_intervals) = length landsat_intervals"
proof -
  have c: "coastal_waterlines trace landsat_summaries
      = map (\<lambda>(t, r). (0, take 10 t, trace 0 r)) landsat_summaries"
    by (simp add: coastal_waterlines_def contour_extract_single zip_map_map
        case_prod_unfold zip_same_conv_map)
  have i: "intertidal_depth_contours trace landsat_intervals
      = map (\<lambda>(h, r). (0, h, trace 0 r)) landsat_intervals"
    by (simp add: intertidal_depth_contours_def contour_extract_single zip_map_map
        case_prod_unfold zip_same_conv_map)
  from contour_extract_calls c i show ?thesis by simp
qed

section \<open>Parallel computing in the notebooks\<close>









section \<open>What the named operations call\<close>

lemma repository_calls_all:
  "map repository_calls all_notebooks =
     [[''utils.dea_datahandling.load_ard''],
      [],
      [''tiledSegParallel.performTiledSegmentation'', ''SpatialTools.geotransform'',
       ''SpatialTools.array_to_geotiff''],
      [''utils.casestudy_mining_functions.load_mining_data'',
       ''utils.casestudy_mining_functions.run_mining_app''],
      [''utils.dea_plotting.display_map'', ''utils.dea_datahandling.load_ard'',
       ''utils.dea_plotting.rgb'', ''utils.dea_bandindices.calculate_indices''],
      [''utils.display.display_map'', ''utils.waterline_funcs.load_cloudmaskedlandsat'',
       ''utils.waterline_funcs.rgb'', ''utils.waterline_funcs.tidal_tag'',
       ''utils.waterline_funcs.contour_extract'', ''utils.waterline_funcs.map_shapefile''],
      [''utils.display.display_map'', ''utils.waterline_funcs.load_cloudmaskedlandsat'',
       ''utils.waterline_funcs.rgb'', ''utils.waterline_funcs.contour_extract'',
       ''utils.waterline_funcs.map_shapefile'', ''utils.waterline_funcs.contours_to_arrays'',
       ''utils.waterline_funcs.interpolate_2d''],
      [''utils.dea_plotting.rgb''],
      [''RainfallTools.load_rainfall'']]"
  by code_simp

lemma hypothesis_test_call:
  "map (\<lambda>c. call_kw ''equal_var'' c) (calls_to ''scipy.stats.ttest_ind'' forestry) = [Some (Const ''False'')]
   \<and> \<not> repository_call ''scipy.stats.ttest_ind''"
  by code_simp

lemma repository_operations:
  "calls_to ''utils.dea_bandindices.calculate_indices'' forestry
     = [Call (Name ''calculate_indices'')
          [Name ''ds_s2'', Str ''NDVI'', Kw ''collection'' (Str ''ga_sentinel2_1'')]]
   \<and> calls_to ''utils.waterline_funcs.tidal_tag'' coastal_erosion
     = [Call (Attr (Name ''waterline_funcs'') ''tidal_tag'')
          [Kw ''ds'' (Name ''landsat_ds''), Kw ''tidepost_lat'' (Const ''None''),
           Kw ''tidepost_lon'' (Const ''None'')]]
   \<and> length (calls_to ''tiledSegParallel.performTiledSegmentation'' tiled_segmentation) = 1
   \<and> repository_call ''utils.dea_bandindices.calculate_indices''
   \<and> repository_call ''utils.waterline_funcs.tidal_tag''
   \<and> repository_call ''tiledSegParallel.performTiledSegmentation''"
  by code_simp

lemma intertidal_tagging_call:
  "notebook_assigned (Name ''landsat_tideheights'') intertidal_elevation
     = [Call (Attr (Name ''tide_data_xr'') ''interp'')
          [Kw ''time'' (Attr (Name ''landsat_ds'') ''time'')]]
   \<and> notebook_assigned (Name ''tide_data_xr'') intertidal_elevation
     = [Call (Attr (Name ''tide_data'') ''to_xarray'') []]
   \<and> notebook_assigned (Name ''tide_data'') intertidal_elevation
     = [Call (Attr (Name ''pd'') ''read_csv'')
          [Name ''tide_file'', Kw ''parse_dates'' (ListE [Str ''time'']),
           Kw ''index_col'' (Str ''time'')]]"
  by code_simp

lemma inline_indices:
  "list_all (\<lambda>e. normalised_difference e \<and> calls e = [])
     (notebook_assigned (Subscript (Name ''landsat_ds'') (Str ''water_index'')) coastal_erosion
      @ notebook_assigned (Subscript (Name ''landsat_ds'') (Str ''water_index'')) intertidal_elevation
      @ notebook_assigned (Subscript (Name ''ds_closest'') (Str ''ndci'')) site_matching)
   \<and> length (notebook_assigned (Subscript (Name ''landsat_ds'') (Str ''water_index'')) coastal_erosion) = 1
   \<and> length (notebook_assigned (Subscript (Name ''landsat_ds'') (Str ''water_index'')) intertidal_elevation) = 1
   \<and> length (notebook_assigned (Subscript (Name ''ds_closest'') (Str ''ndci'')) site_matching) = 1"
  by code_simp

text \<open>
  Claim C2 (as amended). The hypothesis test is one call to scipy
  (\<open>scipy.stats.ttest_ind\<close>), and the intertidal notebook tags tides by one call to
  xarray's \<open>interp\<close> on the table read from the tide file. NDVI, the tide tagging of the
  coastal erosion notebook and the image segmentation are each one call into a helper
  module of the repository itself (\<open>utils.dea_bandindices\<close>, \<open>utils.waterline_funcs\<close>,
  \<open>tiledSegParallel\<close>). The water and chlorophyll indices (MNDWI, NDWI, NDCI) are written
  in the cells as band arithmetic \<open>(A - B) / (A + B)\<close>, with no call at all.
\<close>

theorem operations_and_their_calls:
  "map (\<lambda>c. call_kw ''equal_var'' c) (calls_to ''scipy.stats.ttest_ind'' forestry)
     = [Some (Const ''False'')]
   \<and> \<not> repository_call ''scipy.stats.ttest_ind''
   \<and> notebook_assigned (Name ''landsat_tideheights'') intertidal_elevation
     = [Call (Attr (Name ''tide_data_xr'') ''interp'')
          [Kw ''time'' (Attr (Name ''landsat_ds'') ''time'')]]
   \<and> calls_to ''utils.dea_bandindices.calculate_indices'' forestry
     = [Call (Name ''calculate_indices'')
          [Name ''ds_s2'', Str ''NDVI'', Kw ''collection'' (Str ''ga_sentinel2_1'')]]
   \<and> calls_to ''utils.waterline_funcs.tidal_tag'' coastal_erosion
     = [Call (Attr (Name ''waterline_funcs'') ''tidal_tag'')
          [Kw ''ds'' (Name ''landsat_ds''), Kw ''tidepost_lat'' (Const ''None''),
           Kw ''tidepost_lon'' (Const ''None'')]]
   \<and> length (calls_to ''tiledSegParallel.performTiledSegmentation'' tiled_segmentation) = 1
   \<and> repository_call ''utils.dea_bandindices.calculate_indices''
   \<and> repository_call ''utils.waterline_funcs.tidal_tag''
   \<and> repository_call ''tiledSegParallel.performTiledSegmentation''
   \<and> list_all (\<lambda>e. normalised_difference e \<and> calls e = [])
       (notebook_assigned (Subscript (Name ''landsat_ds'') (Str ''water_index'')) coastal_erosion
        @ notebook_assigned (Subscript (Name ''landsat_ds'') (Str ''water_index'')) intertidal_elevation
        @ notebook_assigned (Subscript (Name ''ds_closest'') (Str ''ndci'')) site_matching)"
  using hypothesis_test_call repository_operations intertidal_tagging_call inline_indices
  by simp

text \<open>
  NDVI is not a call into an external library: the forestry notebook gets it from
  \<open>calculate_indices\<close> of the repository's own \<open>utils.dea_bandindices\<close>; and MNDWI is
  not a call: the coastal erosion notebook writes it out with operators.
\<close>

theorem ndvi_repository_call_counterexample:
  "map (qualified_name (notebook_imports forestry))
     (filter (\<lambda>c. case c of Call _ args \<Rightarrow> Str ''NDVI'' \<in> set args | _ \<Rightarrow> False)
        (notebook_calls forestry))
     = [Some ''utils.dea_bandindices.calculate_indices'']
   \<and> repository_call ''utils.dea_bandindices.calculate_indices''
   \<and> notebook_assigned (Subscript (Name ''landsat_ds'') (Str ''water_index'')) coastal_erosion
     = [BinOp ''/''
          (BinOp ''-'' (Attr (Name ''landsat_ds'') ''green'') (Attr (Name ''landsat_ds'') ''swir1''))
          (BinOp ''+'' (Attr (Name ''landsat_ds'') ''green'') (Attr (Name ''landsat_ds'') ''swir1''))]"
  by code_simp

section \<open>Notebooks with blanks do not run\<close>

lemma blanks_fill_stmt:
  "blanks (fill_stmt f s) = filter (\<lambda>n. f n = None) (blanks s)"
proof (induction s)
  case (Incomplete n)
  then show ?case by (cases "f n") simp_all
next
  case (FunDef g params body)
  then show ?case by (simp add: filter_concat map_concat comp_def cong: map_cong)
next
  case (For targets iter body)
  then show ?case by (simp add: filter_concat map_concat comp_def cong: map_cong)
next
  case (IfStmt cond body orelse)
  then show ?case by (simp add: filter_concat map_concat comp_def cong: map_cong)
qed simp_all

lemma notebook_blanks_fill:
  "notebook_blanks (fill f nb) = filter (\<lambda>n. f n = None) (notebook_blanks nb)"
  by (simp add: notebook_blanks_def fill_def filter_concat comp_def blanks_fill_stmt)

lemma run_cells_blank:
  assumes "run_cells k env cs = Inr env'"
  shows "notebook_blanks cs = []"
  using assms
proof (induction cs arbitrary: k env)
  case Nil
  then show ?case by (simp add: notebook_blanks_def)
next
  case (Cons c cs)
  from Cons.prems obtain mid where c: "exec_cell env c = Inr mid"
    and rest: "run_cells (Suc k) mid cs = Inr env'"
    by (auto split: sum.splits)
  from c have "concat (map blanks c) = []"
    by (auto simp add: exec_cell_def split: list.splits)
  moreover from rest have "notebook_blanks cs = []" by (rule Cons.IH)
  ultimately show ?case by (simp add: notebook_blanks_def)
qed

lemma run_filled_needs_all:
  assumes "run_notebook (fill f nb) = Inr env" and "n \<in> set (notebook_blanks nb)"
  shows "f n \<noteq> None"
proof
  assume "f n = None"
  with assms(2) have "n \<in> set (notebook_blanks (fill f nb))"
    by (simp add: notebook_blanks_fill)
  moreover from assms(1) have "notebook_blanks (fill f nb) = []"
    unfolding run_notebook_def by (rule run_cells_blank)
  ultimately show False by simp
qed

lemma do_it_yourself_blanks:
  "notebook_blanks do_it_yourself = [''coordinates'', ''box_size'', ''time_step'', ''bands'', ''ndvi'']"
  by code_simp

lemma do_it_yourself_as_shipped:
  "run_notebook do_it_yourself = Inl (0, SyntaxError ''coordinates'')"
  by code_simp

lemma do_it_yourself_filled:
  "runs_clean (fill suggested do_it_yourself)"
  by code_simp

text \<open>
  Claim C7. The Do-it-yourself tutorial holds assignments with no right-hand side
  (\<open>coordinates\<close>, \<open>box_size\<close>, \<open>time_step\<close>, \<open>bands\<close>, \<open>ndvi\<close>). As it stands it does
  not run: its first code cell is a SyntaxError. However an analyst fills the blanks, the
  notebook runs to its end only if every one of them was given a right-hand side.
\<close>

theorem do_it_yourself_needs_editing:
  "notebook_blanks do_it_yourself
     = [''coordinates'', ''box_size'', ''time_step'', ''bands'', ''ndvi'']
   \<and> run_notebook do_it_yourself = Inl (0, SyntaxError ''coordinates'')
   \<and> (\<forall>f env. run_notebook (fill f do_it_yourself) = Inr env \<longrightarrow>
         f ''coordinates'' \<noteq> None \<and> f ''box_size'' \<noteq> None \<and> f ''time_step'' \<noteq> None
         \<and> f ''bands'' \<noteq> None \<and> f ''ndvi'' \<noteq> None)"
proof -
  have "f ''coordinates'' \<noteq> None \<and> f ''box_size'' \<noteq> None \<and> f ''time_step'' \<noteq> None
         \<and> f ''bands'' \<noteq> None \<and> f ''ndvi'' \<noteq> None"
    if "run_notebook (fill f do_it_yourself) = Inr env" for f env
    using run_filled_needs_all [OF that] by (simp add: do_it_yourself_blanks)
  with do_it_yourself_blanks do_it_yourself_as_shipped show ?thesis by blast
qed

theorem do_it_yourself_needs_editing_witness:
  "runs_clean (fill suggested do_it_yourself)
   \<and> suggested ''coordinates'' \<noteq> None \<and> suggested ''box_size'' \<noteq> None
   \<and> suggested ''time_step'' \<noteq> None \<and> suggested ''bands'' \<noteq> None
   \<and> suggested ''ndvi'' \<noteq> None"
proof -
  obtain env where run: "run_notebook (fill suggested do_it_yourself) = Inr env"
    using do_it_yourself_filled by (auto simp add: runs_clean_def split: sum.splits)
  from do_it_yourself_needs_editing run
  have "suggested ''coordinates'' \<noteq> None \<and> suggested ''box_size'' \<noteq> None
      \<and> suggested ''time_step'' \<noteq> None \<and> suggested ''bands'' \<noteq> None
      \<and> suggested ''ndvi'' \<noteq> None"
    by blast
  with do_it_yourself_filled show ?thesis by simp
qed

section \<open>Names are defined before they are read\<close>

lemma other_notebooks_run:
  "runs_clean site_matching" "runs_clean dask_average_colour" "runs_clean tiled_segmentation"
  "runs_clean mining" "runs_clean forestry" "runs_clean coastal_erosion"
  "runs_clean intertidal_elevation"
  by code_simp+

text \<open>
  Claim C3 fails on the rainfall notebook: its sixth code cell reads
  \<^verbatim>\<open>cumulative_rainfall\<close>, which no cell defines, and the run stops there with a
  NameError.
\<close>

theorem rainfall_undefined_name:
  "run_notebook rainfall = Inl (5, NameError ''cumulative_rainfall'')"
  by code_simp

end
